theory Spec2Isabelle
  imports Complex_Main "HOL-Library.AList" "HOL-Library.Word"
begin

section \<open>Decimal rendering of non-negative integers\<close>

text \<open>
  \<^verbatim>\<open>Number.prototype.toString\<close> on a non-negative integer below \<open>10^21\<close> prints its
  decimal digits without leading zeros. The OTP generator and the template strings of
  \<^verbatim>\<open>src/server.js\<close> only ever print such integers.
\<close>

definition digit :: "nat \<Rightarrow> char" where
  "digit d = ''0123456789'' ! d"

fun decimal :: "nat \<Rightarrow> string" where
  "decimal n = (if n < 10 then [digit n] else decimal (n div 10) @ [digit (n mod 10)])"

declare decimal.simps [simp del]

definition isDigit :: "char \<Rightarrow> bool" where
  "isDigit c = (c \<in> set ''0123456789'')"


section \<open>Email OTP (\<^verbatim>\<open>src/server.js\<close>, lines 1797-2069)\<close>

text \<open>
  \<^verbatim>\<open>otpStore\<close> is a \<^verbatim>\<open>Map\<close> from the email string to
  \<^verbatim>\<open>{ otp, expiresAt, attempts }\<close>. Times are milliseconds since the epoch
  (\<^verbatim>\<open>Date.now()\<close>), given to each handler as an argument.
\<close>

record otpRecord =
  otp :: string
  expiresAt :: int
  attempts :: nat

type_synonym otpStore = "string \<rightharpoonup> otpRecord"

text \<open>The two module constants read from the environment at start-up.\<close>

record mailConfig =
  SENDGRID_API_KEY :: "string option"
  SENDGRID_FROM :: "string option"

text \<open>\<^verbatim>\<open>!x\<close> for an environment variable: unset or the empty string.\<close>

definition missing :: "string option \<Rightarrow> bool" where
  "missing v = (v = None \<or> v = Some [])"

text \<open>
  What \<^verbatim>\<open>sgMail.send\<close> did, an input of the model: it accepted the message or
  threw an error with the given message text.
\<close>

datatype sendOutcome = Accepted | Rejected string

datatype exn = Error string

text \<open>
  A handler's reply: an error body \<^verbatim>\<open>{ error: { code, message } }\<close> with its HTTP
  status, or a success body (status 200) with its message. The user object of a
  successful login or signup and the development-only \<^verbatim>\<open>details\<close> field are left out.
\<close>

datatype reply = ErrorReply nat string string | SuccessReply string

definition sendOtpEmail :: "mailConfig \<Rightarrow> string \<Rightarrow> string \<Rightarrow> sendOutcome \<Rightarrow> exn + bool" where
  "sendOtpEmail cfg to code mail =
     (if missing (SENDGRID_API_KEY cfg) \<or> missing (SENDGRID_FROM cfg) then
        Inl (Error (''Email not configured: '' @
          (if missing (SENDGRID_API_KEY cfg) then ''SENDGRID_API_KEY missing''
           else ''SENDGRID_FROM missing'')))
      else (case mail of
              Accepted \<Rightarrow> Inr True
            | Rejected m \<Rightarrow> Inl (Error (if m = [] then ''Failed to send OTP email'' else m))))"

text \<open>
  \<^verbatim>\<open>Math.floor(100000 + Math.random() * 900000).toString()\<close>, with the value \<open>r\<close> of
  \<^verbatim>\<open>Math.random()\<close>, a number in \<open>[0, 1)\<close>, as an argument.
\<close>

definition generateOtp :: "real \<Rightarrow> string" where
  "generateOtp r = decimal (nat \<lfloor>100000 + r * 900000\<rfloor>)"

text \<open>
  \<^verbatim>\<open>POST /auth/send-otp\<close>. The body's \<^verbatim>\<open>email\<close> is a string or absent (\<open>None\<close>).
  The reply and the store after the request are returned.
\<close>

definition sendOtp ::
  "mailConfig \<Rightarrow> otpStore \<Rightarrow> string option \<Rightarrow> real \<Rightarrow> int \<Rightarrow> sendOutcome \<Rightarrow> reply \<times> otpStore" where
  "sendOtp cfg store email r now mail =
     (case email of
        None \<Rightarrow> (ErrorReply 400 ''VALIDATION_ERROR'' ''Valid email is required'', store)
      | Some e \<Rightarrow>
          if e = [] \<or> CHR ''@'' \<notin> set e then
            (ErrorReply 400 ''VALIDATION_ERROR'' ''Valid email is required'', store)
          else if missing (SENDGRID_API_KEY cfg) \<or> missing (SENDGRID_FROM cfg) then
            (ErrorReply 503 ''SERVICE_UNAVAILABLE''
               ''Email service is not configured. Please contact administrator.'', store)
          else
            let code = generateOtp r;
                store' = store(e \<mapsto> \<lparr>otp = code, expiresAt = now + 10 * 60 * 1000, attempts = 0\<rparr>)
            in (case sendOtpEmail cfg e code mail of
                  Inl err \<Rightarrow>
                    (ErrorReply 500 ''SERVER_ERROR'' ''Error sending OTP. Please try again.'', store')
                | Inr ok \<Rightarrow> (SuccessReply ''OTP sent to your email'', store')))"

text \<open>
  \<^verbatim>\<open>POST /auth/verify-otp\<close>. \<^verbatim>\<open>email\<close> and \<^verbatim>\<open>otp\<close> are strings or absent.
  After a match the handler asks the users collection whether the email is known
  (\<open>known\<close>) and, for a new user, needs a \<^verbatim>\<open>name\<close>. A failure of the users
  collection (answered with status 500, after the record is deleted) and body fields that are
  not strings are outside the model.
\<close>

definition verifyOtp ::
  "otpStore \<Rightarrow> string option \<Rightarrow> string option \<Rightarrow> string option \<Rightarrow> bool \<Rightarrow> int \<Rightarrow> reply \<times> otpStore" where
  "verifyOtp store email code name known now =
     (case (email, code) of
        (Some e, Some c) \<Rightarrow>
          if e = [] \<or> c = [] then
            (ErrorReply 400 ''VALIDATION_ERROR'' ''Email and OTP are required'', store)
          else (case store e of
            None \<Rightarrow>
              (ErrorReply 400 ''OTP_NOT_FOUND'' ''OTP not found. Please request a new one.'', store)
          | Some storedOtpData \<Rightarrow>
              if now > expiresAt storedOtpData then
                (ErrorReply 400 ''OTP_EXPIRED'' ''OTP has expired. Please request a new one.'',
                 store(e := None))
              else if attempts storedOtpData \<ge> 3 then
                (ErrorReply 400 ''TOO_MANY_ATTEMPTS''
                   ''Too many failed attempts. Please request a new OTP.'', store(e := None))
              else if otp storedOtpData \<noteq> c then
                (ErrorReply 400 ''INVALID_OTP''
                   (''Invalid OTP. '' @ decimal (3 - (attempts storedOtpData + 1))
                      @ '' attempts remaining.''),
                 store(e \<mapsto> storedOtpData\<lparr>attempts := attempts storedOtpData + 1\<rparr>))
              else if known then (SuccessReply ''Login successful'', store(e := None))
              else if name = None \<or> name = Some [] then
                (ErrorReply 400 ''VALIDATION_ERROR'' ''Name is required for signup'', store(e := None))
              else (SuccessReply ''Registration successful'', store(e := None)))
      | _ \<Rightarrow> (ErrorReply 400 ''VALIDATION_ERROR'' ''Email and OTP are required'', store))"

text \<open>
  A sequence of verification requests for one email, each with its submitted code, the
  \<^verbatim>\<open>name\<close> field, whether the users collection knows the email, and its time.
\<close>

fun verifyAll ::
  "otpStore \<Rightarrow> string \<Rightarrow> (string \<times> string option \<times> bool \<times> int) list \<Rightarrow> reply list \<times> otpStore" where
  "verifyAll store e [] = ([], store)"
| "verifyAll store e ((c, name, known, t) # rest) =
     (let (r, store') = verifyOtp store (Some e) (Some c) name known t;
          (rs, store'') = verifyAll store' e rest
      in (r # rs, store''))"


section \<open>Weather endpoint (\<^verbatim>\<open>src/server.js\<close>, lines 882-1156)\<close>

text \<open>
  The body of a Tomorrow.io forecast response, as far as the handler reads it. A
  \<^verbatim>\<open>values\<close> object maps a field name to its number, \<open>None\<close> where the field is
  absent. An entry of a timeline carries its \<^verbatim>\<open>time\<close> and, possibly, its
  \<^verbatim>\<open>values\<close>; a timeline that is absent is the empty list. Numbers are real numbers: the
  rounding below is the exact one, not that of IEEE doubles.
\<close>

type_synonym wvalues = "string \<Rightarrow> real option"

record interval =
  time :: string
  "values" :: "wvalues option"

record timelines =
  minutely :: "interval list"
  hourly :: "interval list"
  daily :: "interval list"

text \<open>
  What the call to the provider did, an input of the model (the call is taken to come
  back; the handler sets no timeout): \<^verbatim>\<open>fetch\<close> threw, the
  response was not \<^verbatim>\<open>ok\<close> and had the given status, the body could not be read
  (\<^verbatim>\<open>response.json()\<close> or the traversal of the parsed value threw), or the body was read.
\<close>

datatype upstream = FetchFailed | HttpError nat | BadBody | Body timelines

text \<open>One day of the forecast: date, maximum, minimum, weather code, precipitation.\<close>

datatype forecastDay = ForecastDay string int int real int

text \<open>
  The \<^verbatim>\<open>data\<close> object of a successful reply. \<^verbatim>\<open>forecast\<close> and the three flags are
  \<open>None\<close> where the object has no such key.
\<close>

record weatherData =
  temperature :: int
  humidity :: int
  windSpeed :: int
  precipitationProbability :: int
  weatherCode :: real
  condition :: string
  advisory :: string
  forecast :: "forecastDay list option"
  cached :: "bool option"
  stale :: "bool option"
  fallback :: "bool option"

record cacheEntry =
  timestamp :: int
  data :: weatherData

type_synonym weatherCache = "string \<rightharpoonup> cacheEntry"

datatype weatherReply = WeatherError nat string string | WeatherSuccess weatherData

definition WEATHER_CACHE_TTL :: int where
  "WEATHER_CACHE_TTL = 10 * 60 * 1000"

text \<open>\<^verbatim>\<open>a || d\<close> for a number field: the number unless it is absent or zero.\<close>

definition numOr :: "real option \<Rightarrow> real \<Rightarrow> real" where
  "numOr a d = (case a of None \<Rightarrow> d | Some x \<Rightarrow> if x = 0 then d else x)"

text \<open>\<^verbatim>\<open>Math.round\<close>: the nearest integer, halves upwards.\<close>

definition round_js :: "real \<Rightarrow> int" where
  "round_js x = \<lfloor>x + 1 / 2\<rfloor>"

definition weatherDescriptions :: "(int \<times> string) list" where
  "weatherDescriptions =
     [(0, ''Unknown''), (1000, ''Clear''), (1001, ''Cloudy''), (1100, ''Mostly Clear''),
      (1101, ''Partly Cloudy''), (1102, ''Mostly Cloudy''), (2000, ''Fog''),
      (2100, ''Light Fog''), (3000, ''Light Wind''), (3001, ''Wind''), (3002, ''Strong Wind''),
      (4000, ''Drizzle''), (4001, ''Rain''), (4200, ''Light Rain''), (4201, ''Heavy Rain''),
      (5000, ''Snow''), (5001, ''Flurries''), (5100, ''Light Snow''), (5101, ''Heavy Snow''),
      (6000, ''Freezing Drizzle''), (6001, ''Freezing Rain''), (6200, ''Light Freezing Rain''),
      (6201, ''Heavy Freezing Rain''), (7000, ''Ice Pellets''), (7101, ''Heavy Ice Pellets''),
      (7102, ''Light Ice Pellets''), (8000, ''Thunderstorm'')]"

text \<open>\<^verbatim>\<open>weatherDescriptions[weatherCode] || 'Unknown'\<close>: only an integer code is a key.\<close>

definition describeCode :: "real \<Rightarrow> string" where
  "describeCode code =
     (if of_int \<lfloor>code\<rfloor> = code then
        (case map_of weatherDescriptions \<lfloor>code\<rfloor> of None \<Rightarrow> ''Unknown'' | Some d \<Rightarrow> d)
      else ''Unknown'')"

definition adviseFor :: "real \<Rightarrow> real \<Rightarrow> real \<Rightarrow> string" where
  "adviseFor precip temp wind =
     (if precip > 70 then
        ''High chance of rain. Postpone spraying activities. Good time for indoor planning.''
      else if precip > 40 then
        ''Moderate rain expected. Good time for irrigation planning and soil preparation.''
      else if temp > 35 then
        ''High temperature. Ensure adequate irrigation. Avoid midday fieldwork.''
      else if temp < 15 then
        ''Cool weather. Monitor frost-sensitive crops. Good for harvesting.''
      else if wind > 20 then
        ''Windy conditions. Avoid pesticide application. Secure farm equipment.''
      else ''Favorable conditions for farming activities. Plan your fieldwork accordingly.'')"

text \<open>\<^verbatim>\<open>x?.[0]?.values\<close> of a timeline.\<close>

definition firstValues :: "interval list \<Rightarrow> wvalues option" where
  "firstValues timeline = (case timeline of [] \<Rightarrow> None | i # rest \<Rightarrow> values i)"

definition forecastOf :: "interval \<Rightarrow> forecastDay" where
  "forecastOf day =
     (let vals = (case values day of None \<Rightarrow> (\<lambda>k. None) | Some v \<Rightarrow> v)
      in ForecastDay (time day)
           (round_js (numOr (vals ''temperatureMax'') (numOr (vals ''temperature'') 0)))
           (round_js (numOr (vals ''temperatureMin'') (numOr (vals ''temperature'') 0)))
           (numOr (vals ''weatherCode'') 0)
           (round_js (numOr (vals ''precipitationProbability'') 0)))"

text \<open>The object that is cached and, with \<^verbatim>\<open>cached: false\<close> added, sent (lines 977-1121).\<close>

definition buildWeather :: "timelines \<Rightarrow> weatherData" where
  "buildWeather tls =
     (let current = (case firstValues (minutely tls) of
                       Some v \<Rightarrow> v
                     | None \<Rightarrow> (case firstValues (hourly tls) of
                                  Some v \<Rightarrow> v
                                | None \<Rightarrow> (\<lambda>k. None)));
          temp = numOr (current ''temperature'') (numOr (current ''temperatureApparent'') 0);
          hum = numOr (current ''humidity'') 0;
          wind = numOr (current ''windSpeed'') 0;
          precip = numOr (current ''precipitationProbability'') 0;
          code = numOr (current ''weatherCode'') 0
      in \<lparr>temperature = round_js temp, humidity = round_js hum, windSpeed = round_js wind,
          precipitationProbability = round_js precip, weatherCode = code,
          condition = describeCode code, advisory = adviseFor precip temp wind,
          forecast = Some (map forecastOf (take 7 (daily tls))),
          cached = None, stale = None, fallback = None\<rparr>)"

text \<open>The hard-coded payload of lines 960-972 and 1142-1154.\<close>

definition fallbackData :: weatherData where
  "fallbackData =
     \<lparr>temperature = 28, humidity = 65, windSpeed = 10, precipitationProbability = 20,
      weatherCode = 1101, condition = ''Partly Cloudy'',
      advisory = ''Weather data temporarily unavailable. Using estimated conditions.'',
      forecast = None, cached = None, stale = None, fallback = Some True\<rparr>"

text \<open>
  \<^verbatim>\<open>{ ...cachedData.data, cached: true, stale: true }\<close> if there is an entry, else the
  fallback: the rate-limit branch (lines 951-972) and the \<^verbatim>\<open>catch\<close> block.
\<close>

definition staleOrFallback :: "cacheEntry option \<Rightarrow> weatherReply" where
  "staleOrFallback cachedData =
     (case cachedData of
        Some entry \<Rightarrow> WeatherSuccess ((data entry)\<lparr>cached := Some True, stale := Some True\<rparr>)
      | None \<Rightarrow> WeatherSuccess fallbackData)"

text \<open>
  \<^verbatim>\<open>GET /weather\<close>. \<open>toFixed\<close> stands for \<^verbatim>\<open>parseFloat(s).toFixed(2)\<close> of the
  JavaScript runtime, which builds the cache key. \<open>lat\<close> and \<open>lon\<close> are the query
  parameters, a string or absent; \<open>apiKey\<close> is \<^verbatim>\<open>process.env.TOMORROW_API_KEY\<close>;
  \<open>now\<close> is the time of the freshness test and \<open>later\<close> the time the fresh result is
  cached. Saving the result to the database cannot change the reply (its failure is
  caught and logged), so it is not part of the model. \<open>refreshWeather\<close> is the part of
  the handler after the freshness test (lines 922-1121); a throw there is answered by
  \<open>catchBlock\<close> (lines 1122-1155), which looks the same key up again.
\<close>

definition catchBlock :: "weatherCache \<Rightarrow> string \<Rightarrow> weatherReply \<times> weatherCache" where
  "catchBlock weatherCache cacheKey = (staleOrFallback (weatherCache cacheKey), weatherCache)"

definition refreshWeather ::
  "weatherCache \<Rightarrow> string \<Rightarrow> string option \<Rightarrow> int \<Rightarrow> upstream \<Rightarrow> weatherReply \<times> weatherCache" where
  "refreshWeather weatherCache cacheKey apiKey later up =
     (let cachedData = weatherCache cacheKey
      in if missing apiKey then
           (case cachedData of
              Some entry \<Rightarrow>
                (WeatherSuccess ((data entry)\<lparr>cached := Some True, stale := Some True\<rparr>),
                 weatherCache)
            | None \<Rightarrow>
                (WeatherError 500 ''CONFIG_ERROR'' ''Weather service not configured'',
                 weatherCache))
         else (case up of
                 FetchFailed \<Rightarrow> catchBlock weatherCache cacheKey
               | HttpError status \<Rightarrow>
                   if status = 429 then (staleOrFallback cachedData, weatherCache)
                   else catchBlock weatherCache cacheKey
               | BadBody \<Rightarrow> catchBlock weatherCache cacheKey
               | Body tls \<Rightarrow>
                   (WeatherSuccess ((buildWeather tls)\<lparr>cached := Some False\<rparr>),
                    weatherCache(cacheKey \<mapsto> \<lparr>timestamp = later, data = buildWeather tls\<rparr>))))"

definition getWeather ::
  "(string \<Rightarrow> string) \<Rightarrow> weatherCache \<Rightarrow> string option \<Rightarrow> string option \<Rightarrow> string option
     \<Rightarrow> int \<Rightarrow> int \<Rightarrow> upstream \<Rightarrow> weatherReply \<times> weatherCache" where
  "getWeather toFixed weatherCache lat lon apiKey now later up =
     (case (lat, lon) of
        (Some la, Some lo) \<Rightarrow>
          if la = [] \<or> lo = [] then
            (WeatherError 400 ''VALIDATION_ERROR'' ''Latitude and longitude are required'',
             weatherCache)
          else
            let cacheKey = toFixed la @ '','' @ toFixed lo
            in (case weatherCache cacheKey of
                  Some entry \<Rightarrow>
                    if now - timestamp entry < WEATHER_CACHE_TTL then
                      (WeatherSuccess ((data entry)\<lparr>cached := Some True\<rparr>), weatherCache)
                    else refreshWeather weatherCache cacheKey apiKey later up
                | None \<Rightarrow> refreshWeather weatherCache cacheKey apiKey later up)
      | _ \<Rightarrow>
          (WeatherError 400 ''VALIDATION_ERROR'' ''Latitude and longitude are required'',
           weatherCache))"

text \<open>A reply with status 200 and \<^verbatim>\<open>status: 'success'\<close>.\<close>

definition isSuccess :: "weatherReply \<Rightarrow> bool" where
  "isSuccess r = (case r of WeatherSuccess d \<Rightarrow> True | WeatherError s c m \<Rightarrow> False)"

section \<open>JavaScript values\<close>

text \<open>
  The user-context module (\<^verbatim>\<open>src/unnamed/part_001\<close>, lines 788-1070, and its earlier
  variant, lines 1071-1277) takes duck-typed payloads and tests them with \<^verbatim>\<open>!x\<close>,
  \<^verbatim>\<open>||\<close>, \<^verbatim>\<open>??\<close> and \<^verbatim>\<open>typeof\<close>, so its arguments are modelled as JavaScript
  values. An object is the list of its own properties; the first binding of a key is its
  value. Numbers are real numbers (a JSON payload has no \<^verbatim>\<open>NaN\<close> or infinity); dates are
  milliseconds since the epoch. A BSON \<^verbatim>\<open>ObjectId\<close> is identified by its hexadecimal
  string.

  A JavaScript string is a sequence of UTF-16 code units, so a string value is a list of
  16-bit words. \<open>JStr s\<close> is the string whose code units are the character codes of
  \<open>s\<close>; it writes the ASCII literals of the source and of the examples. Property names
  stay lists of 8-bit characters: every name the module reads is ASCII.
\<close>

datatype objectId = ObjectId string

type_synonym jsstring = "16 word list"

definition unitOf :: "char \<Rightarrow> 16 word" where
  "unitOf c = of_nat (of_char c)"

datatype jsval =
    JUndefined
  | JNull
  | JBool bool
  | JNum real
  | JString jsstring
  | JDate int
  | JOid objectId
  | JArr "jsval list"
  | JObj "(string \<times> jsval) list"

abbreviation JStr :: "string \<Rightarrow> jsval" where
  "JStr s \<equiv> JString (map unitOf s)"

text \<open>The values that \<^verbatim>\<open>if (x)\<close>, \<^verbatim>\<open>!x\<close> and \<^verbatim>\<open>||\<close> take for true.\<close>

fun truthy :: "jsval \<Rightarrow> bool" where
  "truthy JUndefined = False"
| "truthy JNull = False"
| "truthy (JBool b) = b"
| "truthy (JNum r) = (r \<noteq> 0)"
| "truthy (JString s) = (s \<noteq> [])"
| "truthy (JDate t) = True"
| "truthy (JOid i) = True"
| "truthy (JArr xs) = True"
| "truthy (JObj kvs) = True"

text \<open>\<^verbatim>\<open>a || b\<close> and \<^verbatim>\<open>a ?? b\<close>.\<close>

definition or_else :: "jsval \<Rightarrow> jsval \<Rightarrow> jsval" where
  "or_else a b = (if truthy a then a else b)"

definition nullish :: "jsval \<Rightarrow> jsval \<Rightarrow> jsval" where
  "nullish a b = (if a = JUndefined \<or> a = JNull then b else a)"

text \<open>
  \<^verbatim>\<open>x.k\<close> and \<^verbatim>\<open>x?.k\<close> for the property names the module reads. None of them is a
  property of a string, number, boolean, date, array or \<^verbatim>\<open>ObjectId\<close>, so only an object
  can have one. Where \<^verbatim>\<open>x.k\<close> is evaluated on \<^verbatim>\<open>null\<close> the functions below return
  \<open>TypeError\<close> themselves.
\<close>

fun getProp :: "jsval \<Rightarrow> string \<Rightarrow> jsval" where
  "getProp (JObj kvs) k = (case map_of kvs k of None \<Rightarrow> JUndefined | Some v \<Rightarrow> v)"
| "getProp v k = JUndefined"

text \<open>\<^verbatim>\<open>typeof x\<close> being \<^verbatim>\<open>'object'\<close>, \<^verbatim>\<open>'number'\<close>, \<^verbatim>\<open>'string'\<close>.\<close>

fun typeofObject :: "jsval \<Rightarrow> bool" where
  "typeofObject JNull = True"
| "typeofObject (JDate t) = True"
| "typeofObject (JOid i) = True"
| "typeofObject (JArr xs) = True"
| "typeofObject (JObj kvs) = True"
| "typeofObject v = False"

fun typeofNumber :: "jsval \<Rightarrow> bool" where
  "typeofNumber (JNum r) = True"
| "typeofNumber v = False"

fun typeofString :: "jsval \<Rightarrow> bool" where
  "typeofString (JString s) = True"
| "typeofString v = False"

text \<open>A parameter with the default \<^verbatim>\<open>= {}\<close>: the default replaces \<^verbatim>\<open>undefined\<close> only.\<close>

definition defaultEmpty :: "jsval \<Rightarrow> jsval" where
  "defaultEmpty v = (if v = JUndefined then JObj [] else v)"

text \<open>
  The own enumerable properties that \<^verbatim>\<open>{ ...x }\<close> copies: those of an object, the indexed
  elements of an array, the indexed code units of a string, nothing otherwise.
\<close>

definition ownEntries :: "jsval \<Rightarrow> (string \<times> jsval) list" where
  "ownEntries v =
     (case v of
        JObj kvs \<Rightarrow> AList.clearjunk kvs
      | JArr xs \<Rightarrow> zip (map decimal [0..<length xs]) xs
      | JString s \<Rightarrow> zip (map decimal [0..<length s]) (map (\<lambda>u. JString [u]) s)
      | _ \<Rightarrow> [])"

text \<open>
  Writing properties into an object one after the other: an existing key keeps its place
  and takes the new value, a new key is added at the end.
\<close>

definition assign :: "(string \<times> jsval) list \<Rightarrow> (string \<times> jsval) list \<Rightarrow> (string \<times> jsval) list" where
  "assign base extra = fold (\<lambda>(k, v). AList.update k v) extra base"

text \<open>
  \<^verbatim>\<open>String.prototype.trim\<close> removes, at both ends, the code points that ECMAScript calls
  \<open>WhiteSpace\<close> and \<open>LineTerminator\<close>: U+0009 to U+000D, U+0020, U+00A0, U+1680, U+2000
  to U+200A, U+2028, U+2029, U+202F, U+205F, U+3000 and U+FEFF. Each of them is one code
  unit, and no half of a surrogate pair is among them.
\<close>

definition isSpace :: "16 word \<Rightarrow> bool" where
  "isSpace u =
     (unat u \<in> {0x0009, 0x000A, 0x000B, 0x000C, 0x000D, 0x0020, 0x00A0, 0x1680, 0x2028, 0x2029,
                 0x202F, 0x205F, 0x3000, 0xFEFF}
      \<or> (0x2000 \<le> unat u \<and> unat u \<le> 0x200A))"

definition trim :: "jsstring \<Rightarrow> jsstring" where
  "trim s = rev (dropWhile isSpace (rev (dropWhile isSpace s)))"

text \<open>
  What the module uses of the MongoDB driver and of the runtime without defining it:
  \<^verbatim>\<open>ObjectId.isValid\<close>, \<^verbatim>\<open>new ObjectId(v)\<close> for a valid \<open>v\<close>, and \<^verbatim>\<open>v.toString()\<close>
  for a truthy \<open>v\<close> that is not a string, which is \<open>None\<close> where the call throws (an
  object whose own \<^verbatim>\<open>toString\<close> property is not a function). The functions below take
  them as a parameter and the theorems hold for every choice of them.
\<close>

record runtime =
  isValid :: "jsval \<Rightarrow> bool"
  newObjectId :: "jsval \<Rightarrow> objectId"
  stringOf :: "jsval \<Rightarrow> jsstring option"

definition toStringJs :: "runtime \<Rightarrow> jsval \<Rightarrow> jsstring option" where
  "toStringJs R v = (case v of JString s \<Rightarrow> Some s | _ \<Rightarrow> stringOf R v)"

text \<open>
  One such runtime, for the examples: a string of 24 hexadecimal digits or an
  \<^verbatim>\<open>ObjectId\<close> is valid.
\<close>

definition isHex :: "16 word \<Rightarrow> bool" where
  "isHex u = (u \<in> set (map unitOf ''0123456789abcdefABCDEF''))"

definition hexRuntime :: runtime where
  "hexRuntime =
     \<lparr>isValid = (\<lambda>v. case v of JString s \<Rightarrow> length s = 24 \<and> list_all isHex s
                           | JOid i \<Rightarrow> True | _ \<Rightarrow> False),
      newObjectId = (\<lambda>v. case v of JString s \<Rightarrow> ObjectId (map (\<lambda>u. char_of (unat u)) s)
                               | JOid i \<Rightarrow> i | _ \<Rightarrow> ObjectId []),
      stringOf = (\<lambda>v. Some (map unitOf ''[object Object]''))\<rparr>"


section \<open>The document store\<close>

text \<open>
  The \<^verbatim>\<open>user_context\<close> collection. Every query of the module selects by \<^verbatim>\<open>userId\<close> and
  an insert happens only when no document matches, so the collection is a map from the
  \<^verbatim>\<open>userId\<close> to the one document that has it. A document is the list of its fields; the
  \<^verbatim>\<open>_id\<close> that the server adds on insert is left out. The operations are those of MongoDB
  as far as the module uses them: an update document with \<^verbatim>\<open>$setOnInsert\<close>, \<^verbatim>\<open>$set\<close> and
  one \<^verbatim>\<open>$push\<close> with \<^verbatim>\<open>$each\<close> and a negative \<^verbatim>\<open>$slice\<close>. The server rejects an update
  that names one path under two operators, and a \<^verbatim>\<open>$push\<close> to a field that holds
  something other than an array. Network and server failures are not modelled.
\<close>

type_synonym document = "(string \<times> jsval) list"

type_synonym collection = "objectId \<rightharpoonup> document"

datatype error =
    CollectionNotInitialized
  | TypeError
  | ConflictingUpdate string
  | NotAnArray string

record updateDoc =
  opSetOnInsert :: "(string \<times> jsval) list"
  opSet :: "(string \<times> jsval) list"
  opPush :: "(string \<times> jsval list \<times> nat) option"

text \<open>\<^verbatim>\<open>$slice: -n\<close>: the last \<open>n\<close> elements.\<close>

definition lastN :: "nat \<Rightarrow> 'a list \<Rightarrow> 'a list" where
  "lastN n xs = drop (length xs - n) xs"

definition applyPush :: "(string \<times> jsval list \<times> nat) option \<Rightarrow> document \<Rightarrow> error + document" where
  "applyPush p d =
     (case p of
        None \<Rightarrow> Inr d
      | Some (k, each, n) \<Rightarrow>
          (case map_of d k of
             None \<Rightarrow> Inr (AList.update k (JArr (lastN n each)) d)
           | Some (JArr xs) \<Rightarrow> Inr (AList.update k (JArr (lastN n (xs @ each))) d)
           | Some other \<Rightarrow> Inl (NotAnArray k)))"

text \<open>The first path that two operators of the update both name, if any.\<close>

definition conflict :: "updateDoc \<Rightarrow> string option" where
  "conflict u =
     (let pushed = (case opPush u of None \<Rightarrow> [] | Some (k, each, n) \<Rightarrow> [k])
      in case find (\<lambda>k. k \<in> set (map fst (opSet u)) \<or> k \<in> set pushed)
                (map fst (opSetOnInsert u)) of
           Some k \<Rightarrow> Some k
         | None \<Rightarrow> find (\<lambda>k. k \<in> set pushed) (map fst (opSet u)))"

text \<open>
  \<^verbatim>\<open>collection.updateOne({ userId: uid }, u, { upsert })\<close>. A matching document gets the
  \<^verbatim>\<open>$set\<close> fields and the \<^verbatim>\<open>$push\<close>. Without a match and with \<^verbatim>\<open>upsert\<close>, a document
  is built from the query's \<^verbatim>\<open>userId\<close> and all three operators; without \<^verbatim>\<open>upsert\<close>
  nothing happens.
\<close>

definition updateOne :: "collection \<Rightarrow> objectId \<Rightarrow> updateDoc \<Rightarrow> bool \<Rightarrow> error + collection" where
  "updateOne c uid u upsert =
     (case conflict u of
        Some k \<Rightarrow> Inl (ConflictingUpdate k)
      | None \<Rightarrow>
          (case c uid of
             Some d \<Rightarrow>
               (case applyPush (opPush u) (assign d (opSet u)) of
                  Inl e \<Rightarrow> Inl e
                | Inr d' \<Rightarrow> Inr (c(uid \<mapsto> d')))
           | None \<Rightarrow>
               if upsert then
                 (case applyPush (opPush u)
                         (assign (assign [(''userId'', JOid uid)] (opSetOnInsert u)) (opSet u)) of
                    Inl e \<Rightarrow> Inl e
                  | Inr d' \<Rightarrow> Inr (c(uid \<mapsto> d')))
               else Inr c))"

text \<open>\<^verbatim>\<open>collection.findOne({ userId: uid })\<close>: the document or \<^verbatim>\<open>null\<close>.\<close>

definition findOne :: "collection \<Rightarrow> objectId \<Rightarrow> jsval" where
  "findOne c uid = (case c uid of None \<Rightarrow> JNull | Some d \<Rightarrow> JObj d)"

text \<open>
  \<^verbatim>\<open>findOne(..., { projection: { chats: 1, userId: 1 } })\<close>: the named fields and
  \<^verbatim>\<open>_id\<close>.
\<close>

definition findOneProjected :: "collection \<Rightarrow> objectId \<Rightarrow> jsval" where
  "findOneProjected c uid =
     (case c uid of
        None \<Rightarrow> JNull
      | Some d \<Rightarrow> JObj (filter (\<lambda>(k, v). k \<in> {''_id'', ''chats'', ''userId''}) d))"


section \<open>The user-context module (\<^verbatim>\<open>src/unnamed/part_001\<close>, lines 788-1070)\<close>

text \<open>
  The module's only state is \<^verbatim>\<open>userContextCollection\<close>, unset until
  \<^verbatim>\<open>initUserContextCollection\<close> has run. An exported function returns its result, or the
  error it throws, together with the state it leaves. Every \<^verbatim>\<open>new Date()\<close> of one call is
  the same instant \<open>now\<close>.
\<close>

record moduleState =
  userContextCollection :: "collection option"

definition getCollection :: "moduleState \<Rightarrow> error + collection" where
  "getCollection st =
     (case userContextCollection st of
        None \<Rightarrow> Inl CollectionNotInitialized
      | Some c \<Rightarrow> Inr c)"

definition normalizeObjectId :: "runtime \<Rightarrow> jsval \<Rightarrow> objectId option" where
  "normalizeObjectId R v =
     (if \<not> truthy v then None
      else (case v of
              JOid i \<Rightarrow> Some i
            | _ \<Rightarrow>
                if typeofString v \<and> isValid R v then Some (newObjectId R v)
                else if truthy (getProp v ''_id'') \<and> isValid R (getProp v ''_id'')
                then Some (newObjectId R (getProp v ''_id''))
                else None))"

text \<open>
  \<^verbatim>\<open>sanitizeProfile(profile = {}, fallback = {})\<close>. Reading \<^verbatim>\<open>fallback.name\<close> throws when
  \<^verbatim>\<open>fallback\<close> is \<^verbatim>\<open>null\<close>.
\<close>

definition sanitizeProfile :: "jsval \<Rightarrow> jsval \<Rightarrow> error + jsval" where
  "sanitizeProfile profileArg fallbackArg =
     (let profile = defaultEmpty profileArg;
          fallback = defaultEmpty fallbackArg
      in if fallback = JNull then Inl TypeError
         else
           let base = [(''name'', or_else (getProp fallback ''name'') JNull),
                       (''email'', or_else (getProp fallback ''email'') JNull),
                       (''phone'', or_else (getProp fallback ''phone'') JNull),
                       (''language'', or_else (getProp fallback ''language'') JNull)]
           in Inr (JObj (assign base (ownEntries profile))))"

text \<open>\<^verbatim>\<open>sanitizeLocation(location = {})\<close>: the snapshot to store, or \<^verbatim>\<open>null\<close>.\<close>

definition sanitizeLocation :: "jsval \<Rightarrow> int \<Rightarrow> jsval" where
  "sanitizeLocation locationArg now =
     (let location = defaultEmpty locationArg
      in if \<not> truthy location \<or> \<not> typeofObject location then JNull
         else
           let address = or_else (getProp location ''address'') JNull;
               latitude = (if typeofNumber (getProp location ''lat'') then getProp location ''lat''
                           else nullish (getProp location ''latitude'') JNull);
               longitude = (if typeofNumber (getProp location ''lon'') then getProp location ''lon''
                            else nullish (getProp location ''longitude'') JNull);
               precision = or_else (getProp location ''precision'') JNull;
               raw = or_else (getProp location ''raw'') JNull
           in if address = JNull \<and> latitude = JNull \<and> longitude = JNull \<and> raw = JNull
              then JNull
              else JObj [(''address'', address), (''latitude'', latitude),
                         (''longitude'', longitude), (''precision'', precision), (''raw'', raw),
                         (''updatedAt'', JDate now)])"

text \<open>
  \<^verbatim>\<open>sanitizeWeather(weather = {})\<close>. \<open>meaningful\<close> looks at every value of the snapshot
  with \<^verbatim>\<open>updatedAt\<close> replaced by \<^verbatim>\<open>undefined\<close>, \<^verbatim>\<open>source\<close> included.
\<close>

definition sanitizeWeather :: "jsval \<Rightarrow> int \<Rightarrow> jsval" where
  "sanitizeWeather weatherArg now =
     (let weather = defaultEmpty weatherArg
      in if \<not> truthy weather \<or> \<not> typeofObject weather then JNull
         else
           let sanitized =
                 [(''temperature'',
                     nullish (getProp weather ''temperature'') (nullish (getProp weather ''temp'') JNull)),
                  (''humidity'', nullish (getProp weather ''humidity'') JNull),
                  (''condition'',
                     or_else (getProp weather ''condition'') (or_else (getProp weather ''summary'') JNull)),
                  (''windSpeed'',
                     nullish (getProp weather ''windSpeed'') (nullish (getProp weather ''wind'') JNull)),
                  (''precipitationProbability'',
                     nullish (getProp weather ''precipitationProbability'')
                       (nullish (getProp weather ''precipChance'') JNull)),
                  (''source'', or_else (getProp weather ''source'') (JStr ''app'')),
                  (''updatedAt'', JDate now)];
               meaningful =
                 list_ex (\<lambda>v. v \<noteq> JNull \<and> v \<noteq> JUndefined)
                   (map snd (assign sanitized [(''updatedAt'', JUndefined)]))
           in if meaningful then JObj sanitized else JNull)"

text \<open>The document that \<^verbatim>\<open>$setOnInsert\<close> creates for a new user, with the given profile.\<close>

definition newDocument :: "objectId \<Rightarrow> jsval \<Rightarrow> int \<Rightarrow> (string \<times> jsval) list" where
  "newDocument normalizedId profile now =
     [(''userId'', JOid normalizedId), (''profile'', profile), (''location'', JNull),
      (''weather'', JNull), (''chats'', JArr []), (''createdAt'', JDate now),
      (''updatedAt'', JDate now)]"

definition nullProfile :: jsval where
  "nullProfile =
     JObj [(''name'', JNull), (''email'', JNull), (''phone'', JNull), (''language'', JNull)]"

text \<open>\<^verbatim>\<open>ensureUserContext(userId, profile = {})\<close>, lines 892-935.\<close>

definition ensureUserContext ::
  "runtime \<Rightarrow> moduleState \<Rightarrow> jsval \<Rightarrow> jsval \<Rightarrow> int \<Rightarrow> (error + jsval) \<times> moduleState" where
  "ensureUserContext R st userId profileArg now =
     (let profile = defaultEmpty profileArg
      in case getCollection st of
           Inl e \<Rightarrow> (Inl e, st)
         | Inr collection \<Rightarrow>
             (case normalizeObjectId R userId of
                None \<Rightarrow> (Inr JNull, st)
              | Some normalizedId \<Rightarrow>
                  (case sanitizeProfile profile profile of
                     Inl e \<Rightarrow> (Inl e, st)
                   | Inr sanitizedProfile \<Rightarrow>
                       (case (if findOne collection normalizedId \<noteq> JNull then
                                updateOne collection normalizedId
                                  \<lparr>opSetOnInsert = [],
                                   opSet = [(''profile'', sanitizedProfile), (''updatedAt'', JDate now)],
                                   opPush = None\<rparr> False
                              else
                                updateOne collection normalizedId
                                  \<lparr>opSetOnInsert = newDocument normalizedId sanitizedProfile now,
                                   opSet = [], opPush = None\<rparr> True) of
                          Inl e \<Rightarrow> (Inl e, st)
                        | Inr collection' \<Rightarrow>
                            (Inr (JOid normalizedId),
                             st\<lparr>userContextCollection := Some collection'\<rparr>)))))"

text \<open>
  The earlier variant of \<^verbatim>\<open>ensureUserContext\<close>, lines 1171-1198: one upsert that names
  \<^verbatim>\<open>profile\<close> under both \<^verbatim>\<open>$setOnInsert\<close> and \<^verbatim>\<open>$set\<close>.
\<close>

definition ensureUserContextUpsert ::
  "runtime \<Rightarrow> moduleState \<Rightarrow> jsval \<Rightarrow> jsval \<Rightarrow> int \<Rightarrow> (error + jsval) \<times> moduleState" where
  "ensureUserContextUpsert R st userId profileArg now =
     (let profile = defaultEmpty profileArg
      in case getCollection st of
           Inl e \<Rightarrow> (Inl e, st)
         | Inr collection \<Rightarrow>
             (case normalizeObjectId R userId of
                None \<Rightarrow> (Inr JNull, st)
              | Some normalizedId \<Rightarrow>
                  (case sanitizeProfile profile profile of
                     Inl e \<Rightarrow> (Inl e, st)
                   | Inr sanitizedProfile \<Rightarrow>
                       (case updateOne collection normalizedId
                               \<lparr>opSetOnInsert =
                                  [(''userId'', JOid normalizedId), (''profile'', sanitizedProfile),
                                   (''location'', JNull), (''weather'', JNull), (''chats'', JArr []),
                                   (''createdAt'', JDate now)],
                                opSet = [(''profile'', sanitizedProfile), (''updatedAt'', JDate now)],
                                opPush = None\<rparr> True of
                          Inl e \<Rightarrow> (Inl e, st)
                        | Inr collection' \<Rightarrow>
                            (Inr (JOid normalizedId),
                             st\<lparr>userContextCollection := Some collection'\<rparr>)))))"

text \<open>
  \<^verbatim>\<open>updateLocationAndWeather(userId, { profile = {}, location, weather } = {})\<close>, lines
  937-989. Destructuring \<^verbatim>\<open>null\<close> throws before anything else runs.
\<close>

definition hasProfileData :: "jsval \<Rightarrow> bool" where
  "hasProfileData profile =
     (truthy (getProp profile ''name'') \<or> truthy (getProp profile ''email'')
      \<or> truthy (getProp profile ''phone'') \<or> truthy (getProp profile ''language''))"

definition updateLocationAndWeather ::
  "runtime \<Rightarrow> moduleState \<Rightarrow> jsval \<Rightarrow> jsval \<Rightarrow> int \<Rightarrow> (error + jsval) \<times> moduleState" where
  "updateLocationAndWeather R st userId arg now =
     (if arg = JNull then (Inl TypeError, st)
      else
        let payload = defaultEmpty arg;
            profile = defaultEmpty (getProp payload ''profile'');
            location = getProp payload ''location'';
            weather = getProp payload ''weather''
        in case getCollection st of
             Inl e \<Rightarrow> (Inl e, st)
           | Inr collection \<Rightarrow>
               (case normalizeObjectId R userId of
                  None \<Rightarrow> (Inr JNull, st)
                | Some normalizedId \<Rightarrow>
                    (case (if truthy profile \<and> hasProfileData profile then
                             ensureUserContext R st userId profile now
                           else if findOne collection normalizedId = JNull then
                             (case updateOne collection normalizedId
                                     \<lparr>opSetOnInsert = newDocument normalizedId nullProfile now,
                                      opSet = [], opPush = None\<rparr> True of
                                Inl e \<Rightarrow> (Inl e, st)
                              | Inr collection' \<Rightarrow>
                                  (Inr JUndefined, st\<lparr>userContextCollection := Some collection'\<rparr>))
                           else (Inr JUndefined, st)) of
                       (Inl e, st') \<Rightarrow> (Inl e, st')
                     | (Inr ensured, st') \<Rightarrow>
                         (case getCollection st' of
                            Inl e \<Rightarrow> (Inl e, st')
                          | Inr collection' \<Rightarrow>
                              let sanitizedLocation = sanitizeLocation location now;
                                  sanitizedWeather = sanitizeWeather weather now;
                                  update =
                                    [(''updatedAt'', JDate now)]
                                    @ (if truthy sanitizedLocation
                                       then [(''location'', sanitizedLocation)] else [])
                                    @ (if truthy sanitizedWeather
                                       then [(''weather'', sanitizedWeather)] else [])
                              in (case updateOne collection' normalizedId
                                         \<lparr>opSetOnInsert = [], opSet = update, opPush = None\<rparr>
                                         False of
                                    Inl e \<Rightarrow> (Inl e, st')
                                  | Inr collection'' \<Rightarrow>
                                      (Inr (findOne collection'' normalizedId),
                                       st'\<lparr>userContextCollection := Some collection''\<rparr>))))))"

text \<open>
  \<^verbatim>\<open>appendChatMessage(userId, chatEntry = {})\<close>, lines 991-1052. \<open>normalizeEntry\<close> is the
  function given to \<^verbatim>\<open>map\<close> and \<open>keepEntry\<close> the one given to \<^verbatim>\<open>filter\<close>. When
  \<^verbatim>\<open>toString\<close> throws for one entry, \<^verbatim>\<open>map\<close> throws and the call ends there, after the
  document has been created if it was missing.
\<close>

definition normalizeEntry :: "runtime \<Rightarrow> int \<Rightarrow> jsval \<Rightarrow> error + jsval" where
  "normalizeEntry R now entry =
     (case (if truthy (getProp entry ''message'')
            then toStringJs R (getProp entry ''message'') else Some []) of
        None \<Rightarrow> Inl TypeError
      | Some messageText \<Rightarrow>
          Inr (JObj [(''role'', JStr (if getProp entry ''role'' = JStr ''assistant''
                                     then ''assistant'' else ''user'')),
                    (''message'', JString messageText),
                    (''metadata'', or_else (getProp entry ''metadata'') (JObj [])),
                    (''timestamp'', or_else (getProp entry ''timestamp'') (JDate now))]))"

fun mapEntries :: "runtime \<Rightarrow> int \<Rightarrow> jsval list \<Rightarrow> error + jsval list" where
  "mapEntries R now [] = Inr []"
| "mapEntries R now (entry # rest) =
     (case normalizeEntry R now entry of
        Inl e \<Rightarrow> Inl e
      | Inr x \<Rightarrow> (case mapEntries R now rest of Inl e \<Rightarrow> Inl e | Inr xs \<Rightarrow> Inr (x # xs)))"

definition keepEntry :: "jsval \<Rightarrow> bool" where
  "keepEntry entry =
     (case getProp entry ''message'' of
        JString m \<Rightarrow> m \<noteq> [] \<and> length (trim m) > 0
      | _ \<Rightarrow> False)"

definition chatEntries :: "runtime \<Rightarrow> int \<Rightarrow> jsval \<Rightarrow> error + jsval list" where
  "chatEntries R now chatEntry =
     (case mapEntries R now (case chatEntry of JArr xs \<Rightarrow> xs | _ \<Rightarrow> [chatEntry]) of
        Inl e \<Rightarrow> Inl e
      | Inr xs \<Rightarrow> Inr (filter keepEntry xs))"

definition appendChatMessage ::
  "runtime \<Rightarrow> moduleState \<Rightarrow> jsval \<Rightarrow> jsval \<Rightarrow> int \<Rightarrow> (error + jsval) \<times> moduleState" where
  "appendChatMessage R st userId chatEntryArg now =
     (let chatEntry = defaultEmpty chatEntryArg
      in case getCollection st of
           Inl e \<Rightarrow> (Inl e, st)
         | Inr collection \<Rightarrow>
             (case normalizeObjectId R userId of
                None \<Rightarrow> (Inr JNull, st)
              | Some normalizedId \<Rightarrow>
                  (case (if findOne collection normalizedId = JNull then
                           let sampleEntry = (case chatEntry of
                                                JArr [] \<Rightarrow> JUndefined
                                              | JArr (x # xs) \<Rightarrow> x
                                              | _ \<Rightarrow> chatEntry);
                               profile = or_else (getProp sampleEntry ''profile'') (JObj [])
                           in (case (if hasProfileData profile then sanitizeProfile profile profile
                                     else Inr nullProfile) of
                                 Inl e \<Rightarrow> Inl e
                               | Inr p \<Rightarrow>
                                   updateOne collection normalizedId
                                     \<lparr>opSetOnInsert = newDocument normalizedId p now,
                                      opSet = [], opPush = None\<rparr> True)
                         else Inr collection) of
                     Inl e \<Rightarrow> (Inl e, st)
                   | Inr collection' \<Rightarrow>
                       let st' = st\<lparr>userContextCollection := Some collection'\<rparr>
                       in (case chatEntries R now chatEntry of
                             Inl e \<Rightarrow> (Inl e, st')
                           | Inr entries \<Rightarrow>
                               if entries = [] then
                                 (Inr (findOneProjected collection' normalizedId), st')
                               else
                                 (case updateOne collection' normalizedId
                                         \<lparr>opSetOnInsert = [],
                                          opSet = [(''updatedAt'', JDate now)],
                                          opPush = Some (''chats'', entries, 5)\<rparr> False of
                                    Inl e \<Rightarrow> (Inl e, st')
                                  | Inr collection'' \<Rightarrow>
                                      (Inr (findOneProjected collection'' normalizedId),
                                       st'\<lparr>userContextCollection := Some collection''\<rparr>))))))"


text \<open>The stored \<^verbatim>\<open>chats\<close>, \<^verbatim>\<open>location\<close>, ... of a user: a field of the user's document.\<close>

definition stored :: "moduleState \<Rightarrow> objectId \<Rightarrow> string \<Rightarrow> jsval option" where
  "stored st uid field =
     (case userContextCollection st of
        None \<Rightarrow> None
      | Some c \<Rightarrow> (case c uid of None \<Rightarrow> None | Some d \<Rightarrow> map_of d field))"

text \<open>The value of one field of a user's stored \<^verbatim>\<open>profile\<close>.\<close>

definition profileField :: "moduleState \<Rightarrow> objectId \<Rightarrow> string \<Rightarrow> jsval option" where
  "profileField st uid k = map_option (\<lambda>p. getProp p k) (stored st uid ''profile'')"

text \<open>
  A user with a complete document, for the examples: the profile, location and weather of
  the module's own test (lines 552-616), as stored.
\<close>

definition exampleId :: objectId where
  "exampleId = ObjectId ''65a1b2c3d4e5f60718293a4b''"

definition exampleDoc :: document where
  "exampleDoc =
     [(''userId'', JOid exampleId),
      (''profile'', JObj [(''name'', JStr ''Asha''), (''email'', JStr ''asha@example.com''),
                          (''phone'', JStr ''+919876543210''), (''language'', JStr ''hi'')]),
      (''location'', JObj [(''address'', JStr ''Shirur, Pune''), (''latitude'', JNum 18.83),
                           (''longitude'', JNum 74.38), (''precision'', JStr ''locality''),
                           (''raw'', JStr ''Shirur''), (''updatedAt'', JDate 500)]),
      (''weather'', JObj [(''temperature'', JNum 28), (''humidity'', JNum 65),
                          (''condition'', JStr ''Partly Cloudy''), (''windSpeed'', JNum 12),
                          (''precipitationProbability'', JNum 20), (''source'', JStr ''app''),
                          (''updatedAt'', JDate 500)]),
      (''chats'', JArr []),
      (''createdAt'', JDate 100),
      (''updatedAt'', JDate 500)]"

definition exampleState :: moduleState where
  "exampleState = \<lparr>userContextCollection = Some [exampleId \<mapsto> exampleDoc]\<rparr>"

text \<open>The weather snapshot whose fields are all \<^verbatim>\<open>null\<close>, apart from the default source.\<close>

definition emptyWeather :: "int \<Rightarrow> jsval" where
  "emptyWeather now =
     JObj [(''temperature'', JNull), (''humidity'', JNull), (''condition'', JNull),
           (''windSpeed'', JNull), (''precipitationProbability'', JNull),
           (''source'', JStr ''app''), (''updatedAt'', JDate now)]"

text \<open>
  The entries that one call keeps and pushes: those that pass the filter, none when the call
  throws. \<open>appended\<close> is all the entries that a sequence of calls keeps, in order.
\<close>

definition keptEntries :: "runtime \<Rightarrow> int \<Rightarrow> jsval \<Rightarrow> jsval list" where
  "keptEntries R now chatEntry =
     (case chatEntries R now (defaultEmpty chatEntry) of Inl e \<Rightarrow> [] | Inr entries \<Rightarrow> entries)"


text \<open>
  The count of non-empty messages in the spec's words ("drops entries whose trimmed message
  is empty", "empty-string messages are ... never counted toward the cap"), stated on the
  arguments of the calls and not through the module's functions: an entry counts when its
  \<^verbatim>\<open>message\<close> is a string with at least one code unit that is not white space.
  \<open>plainMessage\<close> says that the message is a string or absent (falsy), as the spec's data
  model has it, so that no \<^verbatim>\<open>toString\<close> is involved.
\<close>

definition callEntries :: "jsval \<Rightarrow> jsval list" where
  "callEntries chatEntry = (case defaultEmpty chatEntry of JArr xs \<Rightarrow> xs | v \<Rightarrow> [v])"

definition nonEmptyMessage :: "jsval \<Rightarrow> bool" where
  "nonEmptyMessage entry =
     (case getProp entry ''message'' of
        JString m \<Rightarrow> list_ex (\<lambda>u. \<not> isSpace u) m
      | _ \<Rightarrow> False)"

definition plainMessage :: "jsval \<Rightarrow> bool" where
  "plainMessage entry =
     (case getProp entry ''message'' of JString m \<Rightarrow> True | v \<Rightarrow> \<not> truthy v)"



text \<open>
  Three calls in the manner of the module's test (lines 660-700), the last one with a
  message of spaces only in between; and a message of white space beyond ASCII: a no-break
  space, an em space and a byte-order mark.
\<close>

definition blankMessage :: jsval where
  "blankMessage = JObj [(''role'', JStr ''user''), (''message'', JString [0x00A0, 0x2003, 0xFEFF])]"



section \<open>Properties of the OTP handlers\<close>

subsection \<open>Decimal strings and the generated code\<close>

lemma isDigit_digit: "k < 10 \<Longrightarrow> isDigit (digit k)"
proof -
  assume "k < 10"
  then have "k \<in> {0,1,2,3,4,5,6,7,8,9}" by auto
  then show ?thesis by (auto simp: isDigit_def digit_def)
qed

lemma digit_zero_iff: "k < 10 \<Longrightarrow> digit k = CHR ''0'' \<longleftrightarrow> k = 0"
proof -
  assume "k < 10"
  then have "k \<in> {0,1,2,3,4,5,6,7,8,9}" by auto
  then show ?thesis by (auto simp: digit_def)
qed

lemma decimal_digits: "c \<in> set (decimal n) \<Longrightarrow> isDigit c"
proof (induction n rule: decimal.induct)
  case (1 n)
  show ?case
  proof (cases "n < 10")
    case True
    then show ?thesis using 1(2) by (subst (asm) decimal.simps) (simp add: isDigit_digit)
  next
    case False
    then show ?thesis using 1 by (subst (asm) (2) decimal.simps) (auto simp add: isDigit_digit)
  qed
qed

lemma decimal_length: "10 ^ k \<le> n \<Longrightarrow> n < 10 ^ Suc k \<Longrightarrow> length (decimal n) = Suc k"
proof (induction k arbitrary: n)
  case 0
  then show ?case by (subst decimal.simps) simp
next
  case (Suc k)
  have "(10::nat) \<le> 10 ^ Suc k" by simp
  then have "\<not> n < 10" using Suc.prems(1) by linarith
  moreover have "10 ^ k \<le> n div 10" using Suc.prems by simp
  moreover have "n div 10 < 10 ^ Suc k" using Suc.prems by (simp add: less_mult_imp_div_less mult.commute)
  ultimately show ?case using Suc.IH[of "n div 10"] by (subst decimal.simps) simp
qed

lemma decimal_hd: "0 < n \<Longrightarrow> hd (decimal n) \<noteq> CHR ''0''"
proof (induction n rule: decimal.induct)
  case (1 n)
  show ?case
  proof (cases "n < 10")
    case True
    then show ?thesis using 1(2) by (subst decimal.simps) (simp add: digit_zero_iff)
  next
    case False
    then have "0 < n div 10" by simp
    then have "hd (decimal (n div 10)) \<noteq> CHR ''0''" using 1(1) False by simp
    moreover have "decimal (n div 10) \<noteq> []" by (subst decimal.simps) simp
    ultimately show ?thesis using False by (subst decimal.simps) simp
  qed
qed

lemma otp_number_range:
  fixes r :: real
  assumes "0 \<le> r" "r < 1"
  shows "100000 \<le> nat \<lfloor>100000 + r * 900000\<rfloor> \<and> nat \<lfloor>100000 + r * 900000\<rfloor> \<le> 999999"
proof -
  have lo: "(100000::real) \<le> 100000 + r * 900000" using assms by simp
  have hi: "100000 + r * 900000 < (1000000::real)" using assms by simp
  have "(100000::int) \<le> \<lfloor>100000 + r * 900000\<rfloor>" using lo by (simp add: le_floor_iff)
  moreover have "\<lfloor>100000 + r * 900000\<rfloor> < (1000000::int)" using hi by (simp add: floor_less_iff)
  ultimately show ?thesis by linarith
qed

lemma generateOtp_shape:
  assumes "0 \<le> r" "r < 1"
  shows "length (generateOtp r) = 6" "\<forall>c \<in> set (generateOtp r). isDigit c"
    "hd (generateOtp r) \<noteq> CHR ''0''"
proof -
  let ?n = "nat \<lfloor>100000 + r * 900000\<rfloor>"
  have rng: "100000 \<le> ?n" "?n \<le> 999999" using otp_number_range[OF assms] by simp_all
  have "10 ^ 5 \<le> ?n" "?n < 10 ^ Suc 5" using rng by simp_all
  then have "length (decimal ?n) = Suc 5" by (rule decimal_length)
  then show "length (generateOtp r) = 6" by (simp add: generateOtp_def)
  show "\<forall>c \<in> set (generateOtp r). isDigit c" by (simp add: generateOtp_def decimal_digits)
  have "0 < ?n" using rng by linarith
  then show "hd (generateOtp r) \<noteq> CHR ''0''" unfolding generateOtp_def by (rule decimal_hd)
qed

lemma sendOtp_configured:
  assumes "e \<noteq> []" "CHR ''@'' \<in> set e"
    "\<not> missing (SENDGRID_API_KEY cfg)" "\<not> missing (SENDGRID_FROM cfg)"
  shows "sendOtp cfg store (Some e) r now mail =
     (case mail of Accepted \<Rightarrow> SuccessReply ''OTP sent to your email''
        | Rejected m \<Rightarrow> ErrorReply 500 ''SERVER_ERROR'' ''Error sending OTP. Please try again.'',
      store(e \<mapsto> \<lparr>otp = generateOtp r, expiresAt = now + 600000, attempts = 0\<rparr>))"
  using assms by (simp add: sendOtp_def sendOtpEmail_def Let_def split: sendOutcome.splits)

lemma verifyOtp_mismatch:
  assumes "store e = Some rec" "e \<noteq> []" "c \<noteq> []" "now \<le> expiresAt rec" "attempts rec < 3"
    "otp rec \<noteq> c"
  shows "verifyOtp store (Some e) (Some c) name known now =
     (ErrorReply 400 ''INVALID_OTP''
        (''Invalid OTP. '' @ decimal (3 - (attempts rec + 1)) @ '' attempts remaining.''),
      store(e \<mapsto> rec\<lparr>attempts := attempts rec + 1\<rparr>))"
  using assms by (simp add: verifyOtp_def)

lemma verifyOtp_exhausted:
  assumes "store e = Some rec" "e \<noteq> []" "c \<noteq> []" "now \<le> expiresAt rec" "3 \<le> attempts rec"
  shows "verifyOtp store (Some e) (Some c) name known now =
     (ErrorReply 400 ''TOO_MANY_ATTEMPTS'' ''Too many failed attempts. Please request a new OTP.'',
      store(e := None))"
  using assms by (simp add: verifyOtp_def)

lemma verifyOtp_not_found:
  assumes "store e = None" "e \<noteq> []" "c \<noteq> []"
  shows "verifyOtp store (Some e) (Some c) name known now =
     (ErrorReply 400 ''OTP_NOT_FOUND'' ''OTP not found. Please request a new one.'', store)"
  using assms by (simp add: verifyOtp_def)

subsection \<open>Issuing a code\<close>

text \<open>
  Claim C6, as the code has it. With the mailer configured and an email containing \<open>@\<close>,
  \<^verbatim>\<open>POST /auth/send-otp\<close> generates a string of exactly six decimal digits whose first
  digit is not \<open>0\<close>: the decimal rendering of an integer from 100000 to 999999. It stores
  \<^verbatim>\<open>{ otp, expiresAt: now + 10 min, attempts: 0 }\<close> under the email, replacing whatever
  record was there, whether or not the mail is delivered afterwards.
\<close>

theorem sendOtp_code_and_record:
  assumes "0 \<le> r" "r < 1" "e \<noteq> []" "CHR ''@'' \<in> set e"
    "\<not> missing (SENDGRID_API_KEY cfg)" "\<not> missing (SENDGRID_FROM cfg)"
  shows "length (generateOtp r) = 6 \<and> (\<forall>c \<in> set (generateOtp r). isDigit c)
     \<and> hd (generateOtp r) \<noteq> CHR ''0''
     \<and> generateOtp r \<in> decimal ` {100000..999999}
     \<and> snd (sendOtp cfg store (Some e) r now mail) =
         store(e \<mapsto> \<lparr>otp = generateOtp r, expiresAt = now + 10 * 60 * 1000, attempts = 0\<rparr>)"
proof -
  have "generateOtp r \<in> decimal ` {100000..999999}"
    unfolding generateOtp_def using otp_number_range[OF assms(1,2)] by simp
  then show ?thesis
    using generateOtp_shape[OF assms(1,2)] sendOtp_configured[OF assms(3-6)] by simp
qed

text \<open>
  The theorem above at \<^verbatim>\<open>Math.random() = 0.5\<close>: the code is \<open>550000\<close> and it replaces an
  older record with two used attempts, although the mail provider rejects the message.
\<close>

theorem sendOtp_code_and_record_witness:
  "(0::real) \<le> 1/2 \<and> (1/2::real) < 1 \<and> ''a@b.com'' \<noteq> [] \<and> CHR ''@'' \<in> set ''a@b.com''
   \<and> \<not> missing (SENDGRID_API_KEY \<lparr>SENDGRID_API_KEY = Some ''SG.key'', SENDGRID_FROM = Some ''otp@krushimitra.in''\<rparr>)
   \<and> \<not> missing (SENDGRID_FROM \<lparr>SENDGRID_API_KEY = Some ''SG.key'', SENDGRID_FROM = Some ''otp@krushimitra.in''\<rparr>)
   \<and> generateOtp (1/2) = ''550000''
   \<and> snd (sendOtp \<lparr>SENDGRID_API_KEY = Some ''SG.key'', SENDGRID_FROM = Some ''otp@krushimitra.in''\<rparr>
        [''a@b.com'' \<mapsto> \<lparr>otp = ''123456'', expiresAt = 5, attempts = 2\<rparr>] (Some ''a@b.com'') (1/2) 1000 (Rejected ''boom''))
      ''a@b.com'' = Some \<lparr>otp = ''550000'', expiresAt = 601000, attempts = 0\<rparr>"
proof -
  have g: "generateOtp (1/2) = ''550000''"
    by (simp add: generateOtp_def decimal.simps digit_def)
  show ?thesis
    using sendOtp_code_and_record [of "1/2" "''a@b.com''"
        "\<lparr>SENDGRID_API_KEY = Some ''SG.key'', SENDGRID_FROM = Some ''otp@krushimitra.in''\<rparr>"
        "[''a@b.com'' \<mapsto> \<lparr>otp = ''123456'', expiresAt = 5, attempts = 2\<rparr>]" 1000 "Rejected ''boom''"] g
    by (simp add: missing_def)
qed

text \<open>
  Claim C6 as stated says that every string of six digits, from \<open>000000\<close> on, is a possible
  code. No value of \<^verbatim>\<open>Math.random()\<close> in \<open>[0, 1)\<close> yields \<open>000000\<close>.
\<close>

theorem generateOtp_leading_zero_counterexample:
  "''000000'' \<notin> generateOtp ` {0..<1}"
proof
  assume "''000000'' \<in> generateOtp ` {0..<1}"
  then obtain r where r: "0 \<le> r" "r < 1" and eq: "generateOtp r = ''000000''" by auto
  from generateOtp_shape(3)[OF r] eq show False by simp
qed

subsection \<open>Delivery failures\<close>

text \<open>
  Claim C7, as the code has it. For a valid email, when the mailer is not configured the
  handler answers 503 \<^verbatim>\<open>SERVICE_UNAVAILABLE\<close> before anything is generated, and the store
  is left exactly as it was: no record is written. When the mailer is configured and the send
  call fails, the handler answers 500 \<^verbatim>\<open>SERVER_ERROR\<close> and the record written before the
  send stays in the store.
\<close>

theorem sendOtp_delivery_failures:
  assumes "e \<noteq> []" "CHR ''@'' \<in> set e"
  shows "(missing (SENDGRID_API_KEY cfg) \<or> missing (SENDGRID_FROM cfg) \<longrightarrow>
            sendOtp cfg store (Some e) r now mail =
              (ErrorReply 503 ''SERVICE_UNAVAILABLE''
                 ''Email service is not configured. Please contact administrator.'', store))
       \<and> (\<not> missing (SENDGRID_API_KEY cfg) \<and> \<not> missing (SENDGRID_FROM cfg) \<longrightarrow>
            sendOtp cfg store (Some e) r now (Rejected m) =
              (ErrorReply 500 ''SERVER_ERROR'' ''Error sending OTP. Please try again.'',
               store(e \<mapsto> \<lparr>otp = generateOtp r, expiresAt = now + 10 * 60 * 1000, attempts = 0\<rparr>)))"
  using assms by (simp add: sendOtp_def sendOtpEmail_def Let_def)

text \<open>
  Both branches of the theorem above at concrete requests: an unconfigured mailer leaves an
  older record untouched, and a rejected send leaves the new record in place.
\<close>

theorem sendOtp_delivery_failures_witness:
  "''a@b.com'' \<noteq> [] \<and> CHR ''@'' \<in> set ''a@b.com''
   \<and> missing (SENDGRID_API_KEY \<lparr>SENDGRID_API_KEY = None, SENDGRID_FROM = Some ''otp@krushimitra.in''\<rparr>)
   \<and> sendOtp \<lparr>SENDGRID_API_KEY = None, SENDGRID_FROM = Some ''otp@krushimitra.in''\<rparr>
        [''a@b.com'' \<mapsto> \<lparr>otp = ''123456'', expiresAt = 5, attempts = 2\<rparr>]
        (Some ''a@b.com'') (1/2) 1000 Accepted =
       (ErrorReply 503 ''SERVICE_UNAVAILABLE''
          ''Email service is not configured. Please contact administrator.'',
        [''a@b.com'' \<mapsto> \<lparr>otp = ''123456'', expiresAt = 5, attempts = 2\<rparr>])
   \<and> \<not> missing (SENDGRID_API_KEY \<lparr>SENDGRID_API_KEY = Some ''SG.key'', SENDGRID_FROM = Some ''otp@krushimitra.in''\<rparr>)
   \<and> \<not> missing (SENDGRID_FROM \<lparr>SENDGRID_API_KEY = Some ''SG.key'', SENDGRID_FROM = Some ''otp@krushimitra.in''\<rparr>)
   \<and> sendOtp \<lparr>SENDGRID_API_KEY = Some ''SG.key'', SENDGRID_FROM = Some ''otp@krushimitra.in''\<rparr>
        Map.empty (Some ''a@b.com'') (1/2) 1000 (Rejected ''Unauthorized'') =
       (ErrorReply 500 ''SERVER_ERROR'' ''Error sending OTP. Please try again.'',
        [''a@b.com'' \<mapsto> \<lparr>otp = generateOtp (1/2), expiresAt = 601000, attempts = 0\<rparr>])"
proof -
  have v: "''a@b.com'' \<noteq> []" "CHR ''@'' \<in> set ''a@b.com''" by simp_all
  show ?thesis
    using sendOtp_delivery_failures [OF v,
        of "\<lparr>SENDGRID_API_KEY = None, SENDGRID_FROM = Some ''otp@krushimitra.in''\<rparr>"
           "[''a@b.com'' \<mapsto> \<lparr>otp = ''123456'', expiresAt = 5, attempts = 2\<rparr>]" "1/2" 1000 Accepted]
      sendOtp_delivery_failures [OF v,
        of "\<lparr>SENDGRID_API_KEY = Some ''SG.key'', SENDGRID_FROM = Some ''otp@krushimitra.in''\<rparr>"
           Map.empty "1/2" 1000 Accepted "''Unauthorized''"]
    by (simp add: missing_def)
qed

text \<open>
  Claim C7 as stated says the record is still stored when the mailer is unconfigured. With
  neither variable set and an empty store, the reply is 503 and the store stays empty.
\<close>

theorem sendOtp_unconfigured_counterexample:
  "sendOtp \<lparr>SENDGRID_API_KEY = None, SENDGRID_FROM = None\<rparr> Map.empty (Some ''a@b.com'') (1/2) 1000 Accepted =
     (ErrorReply 503 ''SERVICE_UNAVAILABLE''
        ''Email service is not configured. Please contact administrator.'', Map.empty)"
  by (simp add: sendOtp_def missing_def)

subsection \<open>Wrong codes and the attempt limit\<close>

text \<open>
  Claim C4, as the code has it. After a code has been issued for an email, three
  verifications with wrong codes (before expiry) are each answered \<^verbatim>\<open>INVALID_OTP\<close>, with
  2, 1 and 0 attempts remaining. The attempt limit is checked before the code is compared, so
  it is the fourth verification, even with the correct code, that is answered
  \<^verbatim>\<open>TOO_MANY_ATTEMPTS\<close> and deletes the record; a fifth one is answered
  \<^verbatim>\<open>OTP_NOT_FOUND\<close>.
\<close>

theorem verifyOtp_three_wrong_codes:
  assumes issued: "e \<noteq> []" "CHR ''@'' \<in> set e"
      "\<not> missing (SENDGRID_API_KEY cfg)" "\<not> missing (SENDGRID_FROM cfg)" "0 \<le> r" "r < 1"
    and wrong: "w1 \<noteq> []" "w1 \<noteq> generateOtp r" "w2 \<noteq> []" "w2 \<noteq> generateOtp r"
      "w3 \<noteq> []" "w3 \<noteq> generateOtp r"
    and intime: "t1 \<le> now + 600000" "t2 \<le> now + 600000" "t3 \<le> now + 600000"
      "t4 \<le> now + 600000"
  shows "verifyAll (snd (sendOtp cfg store (Some e) r now mail)) e
           [(w1, n1, k1, t1), (w2, n2, k2, t2), (w3, n3, k3, t3),
            (generateOtp r, n4, k4, t4), (generateOtp r, n5, k5, t5)] =
         ([ErrorReply 400 ''INVALID_OTP'' ''Invalid OTP. 2 attempts remaining.'',
           ErrorReply 400 ''INVALID_OTP'' ''Invalid OTP. 1 attempts remaining.'',
           ErrorReply 400 ''INVALID_OTP'' ''Invalid OTP. 0 attempts remaining.'',
           ErrorReply 400 ''TOO_MANY_ATTEMPTS''
             ''Too many failed attempts. Please request a new OTP.'',
           ErrorReply 400 ''OTP_NOT_FOUND'' ''OTP not found. Please request a new one.''],
          store(e := None))"
proof -
  let ?rec = "\<lparr>otp = generateOtp r, expiresAt = now + 600000, attempts = 0\<rparr>"
  let ?s0 = "store(e \<mapsto> ?rec)"
  let ?s1 = "store(e \<mapsto> ?rec\<lparr>attempts := 1\<rparr>)"
  let ?s2 = "store(e \<mapsto> ?rec\<lparr>attempts := 2\<rparr>)"
  let ?s3 = "store(e \<mapsto> ?rec\<lparr>attempts := 3\<rparr>)"
  have code: "generateOtp r \<noteq> []"
    using generateOtp_shape(1)[OF issued(5,6)] by auto
  have s0: "snd (sendOtp cfg store (Some e) r now mail) = ?s0"
    using sendOtp_configured[OF issued(1-4)] by simp
  have v1: "verifyOtp ?s0 (Some e) (Some w1) n1 k1 t1 =
      (ErrorReply 400 ''INVALID_OTP'' ''Invalid OTP. 2 attempts remaining.'', ?s1)"
    using verifyOtp_mismatch[of ?s0 e ?rec w1 t1 n1 k1] issued(1) wrong intime
    by (simp add: decimal.simps digit_def numeral_2_eq_2 numeral_3_eq_3)
  have v2: "verifyOtp ?s1 (Some e) (Some w2) n2 k2 t2 =
      (ErrorReply 400 ''INVALID_OTP'' ''Invalid OTP. 1 attempts remaining.'', ?s2)"
    using verifyOtp_mismatch[of ?s1 e "?rec\<lparr>attempts := 1\<rparr>" w2 t2 n2 k2] issued(1) wrong intime
    by (simp add: decimal.simps digit_def numeral_2_eq_2 numeral_3_eq_3)
  have v3: "verifyOtp ?s2 (Some e) (Some w3) n3 k3 t3 =
      (ErrorReply 400 ''INVALID_OTP'' ''Invalid OTP. 0 attempts remaining.'', ?s3)"
    using verifyOtp_mismatch[of ?s2 e "?rec\<lparr>attempts := 2\<rparr>" w3 t3 n3 k3] issued(1) wrong intime
    by (simp add: decimal.simps digit_def numeral_2_eq_2 numeral_3_eq_3)
  have v4: "verifyOtp ?s3 (Some e) (Some (generateOtp r)) n4 k4 t4 =
      (ErrorReply 400 ''TOO_MANY_ATTEMPTS'' ''Too many failed attempts. Please request a new OTP.'',
       store(e := None))"
    using verifyOtp_exhausted[of ?s3 e "?rec\<lparr>attempts := 3\<rparr>" "generateOtp r" t4 n4 k4]
      issued(1) code intime by (simp add: numeral_3_eq_3)
  have v5: "verifyOtp (store(e := None)) (Some e) (Some (generateOtp r)) n5 k5 t5 =
      (ErrorReply 400 ''OTP_NOT_FOUND'' ''OTP not found. Please request a new one.'',
       store(e := None))"
    using verifyOtp_not_found[of "store(e := None)" e "generateOtp r" n5 k5 t5] issued(1) code
    by simp
  show ?thesis
    by (simp only: verifyAll.simps s0 v1 v2 v3 v4 v5 Let_def prod.case)
qed

text \<open>
  The theorem above for \<^verbatim>\<open>a@b.com\<close>, issued the code \<open>550000\<close> at time 1000.
\<close>

theorem verifyOtp_three_wrong_codes_witness:
  "verifyAll (snd (sendOtp \<lparr>SENDGRID_API_KEY = Some ''SG.key'', SENDGRID_FROM = Some ''otp@krushimitra.in''\<rparr>
       Map.empty (Some ''a@b.com'') (1/2) 1000 Accepted)) ''a@b.com''
     [(''111111'', None, False, 2000), (''222222'', None, False, 3000), (''333333'', None, False, 4000),
      (generateOtp (1/2), Some ''Asha'', False, 5000), (generateOtp (1/2), Some ''Asha'', False, 6000)] =
   ([ErrorReply 400 ''INVALID_OTP'' ''Invalid OTP. 2 attempts remaining.'',
     ErrorReply 400 ''INVALID_OTP'' ''Invalid OTP. 1 attempts remaining.'',
     ErrorReply 400 ''INVALID_OTP'' ''Invalid OTP. 0 attempts remaining.'',
     ErrorReply 400 ''TOO_MANY_ATTEMPTS'' ''Too many failed attempts. Please request a new OTP.'',
     ErrorReply 400 ''OTP_NOT_FOUND'' ''OTP not found. Please request a new one.''],
    Map.empty)"
proof -
  have g: "generateOtp (1/2) = ''550000''"
    by (simp add: generateOtp_def decimal.simps digit_def)
  have m: "\<not> missing (Some ''SG.key'')" "\<not> missing (Some ''otp@krushimitra.in'')"
    by (simp_all add: missing_def)
  show ?thesis
    using verifyOtp_three_wrong_codes [of "''a@b.com''"
        "\<lparr>SENDGRID_API_KEY = Some ''SG.key'', SENDGRID_FROM = Some ''otp@krushimitra.in''\<rparr>"
        "1/2" "''111111''" "''222222''" "''333333''" 2000 1000 3000 4000 5000
        Map.empty Accepted None False None False None False "Some ''Asha''" False "Some ''Asha''" False 6000]
      g m
    by simp
qed

text \<open>
  Claim C4 as stated expects \<^verbatim>\<open>TOO_MANY_ATTEMPTS\<close> on the third wrong code and
  \<^verbatim>\<open>OTP_NOT_FOUND\<close> for the correct code after it. The third reply is
  \<^verbatim>\<open>INVALID_OTP\<close> and the correct code that follows is answered
  \<^verbatim>\<open>TOO_MANY_ATTEMPTS\<close>.
\<close>

theorem verifyOtp_third_wrong_counterexample:
  "verifyAll [''a@b.com'' \<mapsto> \<lparr>otp = ''550000'', expiresAt = 601000, attempts = 0\<rparr>] ''a@b.com''
     [(''111111'', None, True, 2000), (''222222'', None, True, 3000), (''333333'', None, True, 4000),
      (''550000'', None, True, 5000)] =
   ([ErrorReply 400 ''INVALID_OTP'' ''Invalid OTP. 2 attempts remaining.'',
     ErrorReply 400 ''INVALID_OTP'' ''Invalid OTP. 1 attempts remaining.'',
     ErrorReply 400 ''INVALID_OTP'' ''Invalid OTP. 0 attempts remaining.'',
     ErrorReply 400 ''TOO_MANY_ATTEMPTS'' ''Too many failed attempts. Please request a new OTP.''],
    Map.empty)"
  by (simp add: verifyOtp_def decimal.simps digit_def)


section \<open>Properties of the weather endpoint\<close>

lemma refreshWeather_reply:
  "fst (refreshWeather wc k apiKey later up) =
     (if missing apiKey then
        (case wc k of
           Some entry \<Rightarrow> WeatherSuccess ((data entry)\<lparr>cached := Some True, stale := Some True\<rparr>)
         | None \<Rightarrow> WeatherError 500 ''CONFIG_ERROR'' ''Weather service not configured'')
      else (case up of
              Body tls \<Rightarrow> WeatherSuccess ((buildWeather tls)\<lparr>cached := Some False\<rparr>)
            | _ \<Rightarrow> staleOrFallback (wc k)))"
  by (simp add: refreshWeather_def catchBlock_def Let_def split: option.splits upstream.splits)

text \<open>
  Claim C3, as the code has it. For a request that supplies both latitude and longitude the
  reply is fixed by the cache entry of the coordinates' bucket, the configuration and the
  provider's answer, as follows.
  \<^item> An entry younger than the TTL is served with \<^verbatim>\<open>cached: true\<close>.
  \<^item> Otherwise, when \<^verbatim>\<open>TOMORROW_API_KEY\<close> is not set: an entry, if there is one, is served
    with \<^verbatim>\<open>cached: true, stale: true\<close>; if there is none the reply is the error 500
    \<^verbatim>\<open>CONFIG_ERROR\<close>. This branch never serves the hard-coded fallback.
  \<^item> Otherwise, when the key is set: a body that can be read gives the fresh payload with
    \<^verbatim>\<open>cached: false\<close>; whatever else the provider does (a throw, status 429 or another
    status, an unreadable body) gives the entry with \<^verbatim>\<open>cached: true, stale: true\<close> if
    there is one, else the fallback payload.
  So the reply is an error exactly when the key is not set and the bucket has no entry, and
  a successful payload in every other case.
\<close>

theorem getWeather_valid_coordinates:
  assumes "la \<noteq> []" "lo \<noteq> []"
  shows "fst (getWeather toFixed wc (Some la) (Some lo) apiKey now later up) =
     (case wc (toFixed la @ '','' @ toFixed lo) of
        Some entry \<Rightarrow>
          if now - timestamp entry < WEATHER_CACHE_TTL then
            WeatherSuccess ((data entry)\<lparr>cached := Some True\<rparr>)
          else if missing apiKey then
            WeatherSuccess ((data entry)\<lparr>cached := Some True, stale := Some True\<rparr>)
          else (case up of
                  Body tls \<Rightarrow> WeatherSuccess ((buildWeather tls)\<lparr>cached := Some False\<rparr>)
                | _ \<Rightarrow> WeatherSuccess ((data entry)\<lparr>cached := Some True, stale := Some True\<rparr>))
      | None \<Rightarrow>
          if missing apiKey then
            WeatherError 500 ''CONFIG_ERROR'' ''Weather service not configured''
          else (case up of
                  Body tls \<Rightarrow> WeatherSuccess ((buildWeather tls)\<lparr>cached := Some False\<rparr>)
                | _ \<Rightarrow> WeatherSuccess fallbackData))
       \<and> (missing apiKey \<and> wc (toFixed la @ '','' @ toFixed lo) = None \<longrightarrow>
            fst (getWeather toFixed wc (Some la) (Some lo) apiKey now later up) =
              WeatherError 500 ''CONFIG_ERROR'' ''Weather service not configured'')
       \<and> (\<not> (missing apiKey \<and> wc (toFixed la @ '','' @ toFixed lo) = None) \<longrightarrow>
            isSuccess (fst (getWeather toFixed wc (Some la) (Some lo) apiKey now later up)))"
proof -
  have table: "fst (getWeather toFixed wc (Some la) (Some lo) apiKey now later up) =
     (case wc (toFixed la @ '','' @ toFixed lo) of
        Some entry \<Rightarrow>
          if now - timestamp entry < WEATHER_CACHE_TTL then
            WeatherSuccess ((data entry)\<lparr>cached := Some True\<rparr>)
          else if missing apiKey then
            WeatherSuccess ((data entry)\<lparr>cached := Some True, stale := Some True\<rparr>)
          else (case up of
                  Body tls \<Rightarrow> WeatherSuccess ((buildWeather tls)\<lparr>cached := Some False\<rparr>)
                | _ \<Rightarrow> WeatherSuccess ((data entry)\<lparr>cached := Some True, stale := Some True\<rparr>))
      | None \<Rightarrow>
          if missing apiKey then
            WeatherError 500 ''CONFIG_ERROR'' ''Weather service not configured''
          else (case up of
                  Body tls \<Rightarrow> WeatherSuccess ((buildWeather tls)\<lparr>cached := Some False\<rparr>)
                | _ \<Rightarrow> WeatherSuccess fallbackData))"
    using assms
    by (simp add: getWeather_def refreshWeather_reply staleOrFallback_def Let_def
          split: option.splits upstream.splits)
  have err: "missing apiKey \<and> wc (toFixed la @ '','' @ toFixed lo) = None \<longrightarrow>
            fst (getWeather toFixed wc (Some la) (Some lo) apiKey now later up) =
              WeatherError 500 ''CONFIG_ERROR'' ''Weather service not configured''"
    by (simp add: table)
  have ok: "\<not> (missing apiKey \<and> wc (toFixed la @ '','' @ toFixed lo) = None) \<longrightarrow>
            isSuccess (fst (getWeather toFixed wc (Some la) (Some lo) apiKey now later up))"
    by (simp add: table isSuccess_def split: option.splits upstream.splits)
  from table err ok show ?thesis by blast
qed

text \<open>
  The theorem above at requests for \<^verbatim>\<open>lat=18.52&lon=73.85\<close>. Without a key: an empty
  cache gives the error; an entry cached at time 0 is served as cached at time 1000 and as
  stale at time 700000 (the TTL is 600000), never replaced by the fallback. With a key and a
  provider answering 503: an empty cache gives the fallback, a stale entry is served as
  stale.
\<close>

theorem getWeather_valid_coordinates_witness:
  "''18.52'' \<noteq> [] \<and> ''73.85'' \<noteq> []
   \<and> missing None \<and> Map.empty (''18.52'' @ '','' @ ''73.85'') = (None :: cacheEntry option)
   \<and> fst (getWeather (\<lambda>s. s) Map.empty (Some ''18.52'') (Some ''73.85'') None 1000 1200
            (HttpError 503)) = WeatherError 500 ''CONFIG_ERROR'' ''Weather service not configured''
   \<and> fst (getWeather (\<lambda>s. s) [''18.52,73.85'' \<mapsto> \<lparr>timestamp = 0, data = buildWeather \<lparr>minutely = [], hourly = [], daily = []\<rparr>\<rparr>]
            (Some ''18.52'') (Some ''73.85'') None 1000 1200 FetchFailed) =
       WeatherSuccess ((buildWeather \<lparr>minutely = [], hourly = [], daily = []\<rparr>)\<lparr>cached := Some True\<rparr>)
   \<and> fst (getWeather (\<lambda>s. s) [''18.52,73.85'' \<mapsto> \<lparr>timestamp = 0, data = buildWeather \<lparr>minutely = [], hourly = [], daily = []\<rparr>\<rparr>]
            (Some ''18.52'') (Some ''73.85'') None 700000 700200 FetchFailed) =
       WeatherSuccess ((buildWeather \<lparr>minutely = [], hourly = [], daily = []\<rparr>)\<lparr>cached := Some True, stale := Some True\<rparr>)
   \<and> \<not> missing (Some ''key'')
   \<and> fst (getWeather (\<lambda>s. s) Map.empty (Some ''18.52'') (Some ''73.85'') (Some ''key'')
            1000 1200 (HttpError 503)) = WeatherSuccess fallbackData
   \<and> fst (getWeather (\<lambda>s. s) [''18.52,73.85'' \<mapsto> \<lparr>timestamp = 0, data = buildWeather \<lparr>minutely = [], hourly = [], daily = []\<rparr>\<rparr>]
            (Some ''18.52'') (Some ''73.85'') (Some ''key'') 700000 700200 (HttpError 503)) =
       WeatherSuccess ((buildWeather \<lparr>minutely = [], hourly = [], daily = []\<rparr>)\<lparr>cached := Some True, stale := Some True\<rparr>)
   \<and> isSuccess (fst (getWeather (\<lambda>s. s) Map.empty (Some ''18.52'') (Some ''73.85'') (Some ''key'')
            1000 1200 (HttpError 503)))"
proof -
  let ?wc = "[''18.52,73.85'' \<mapsto> \<lparr>timestamp = 0, data = buildWeather \<lparr>minutely = [], hourly = [], daily = []\<rparr>\<rparr>]"
  show ?thesis
    using getWeather_valid_coordinates [where la = "''18.52''" and lo = "''73.85''" and apiKey = None
        and toFixed = "\<lambda>s. s" and wc = Map.empty and now = 1000 and later = 1200
        and up = "HttpError 503"]
      getWeather_valid_coordinates [where la = "''18.52''" and lo = "''73.85''" and apiKey = None
        and toFixed = "\<lambda>s. s" and wc = ?wc and now = 1000 and later = 1200 and up = FetchFailed]
      getWeather_valid_coordinates [where la = "''18.52''" and lo = "''73.85''" and apiKey = None
        and toFixed = "\<lambda>s. s" and wc = ?wc and now = 700000 and later = 700200
        and up = FetchFailed]
      getWeather_valid_coordinates [where la = "''18.52''" and lo = "''73.85''"
        and apiKey = "Some ''key''" and toFixed = "\<lambda>s. s" and wc = Map.empty and now = 1000
        and later = 1200 and up = "HttpError 503"]
      getWeather_valid_coordinates [where la = "''18.52''" and lo = "''73.85''"
        and apiKey = "Some ''key''" and toFixed = "\<lambda>s. s" and wc = ?wc and now = 700000
        and later = 700200 and up = "HttpError 503"]
    by (simp add: missing_def WEATHER_CACHE_TTL_def isSuccess_def)
qed

text \<open>
  Claim C3 as stated says there is no path that returns an error when both coordinates are
  supplied. With no API key and an empty cache the reply is 500 \<^verbatim>\<open>CONFIG_ERROR\<close>.
\<close>

theorem getWeather_unconfigured_counterexample:
  "getWeather (\<lambda>s. s) Map.empty (Some ''18.52'') (Some ''73.85'') None 1000 1200 FetchFailed =
     (WeatherError 500 ''CONFIG_ERROR'' ''Weather service not configured'', Map.empty)"
  by (simp add: getWeather_def refreshWeather_def missing_def)

section \<open>Properties of the user-context module\<close>

subsection \<open>Objects, updates and the store\<close>

lemma unat_unitOf [simp]: "unat (unitOf c) = of_char c"
proof -
  have "(of_char c :: nat) < 65536"
    using nat_of_char_less_256[of c] by linarith
  then show ?thesis by (simp add: unitOf_def unat_of_nat)
qed

lemma unitOf_eq_iff [simp]: "unitOf a = unitOf b \<longleftrightarrow> a = b"
proof
  assume "unitOf a = unitOf b"
  then have "unat (unitOf a) = unat (unitOf b)" by simp
  then show "a = b" by simp
qed simp

lemma map_unitOf_eq_iff [simp]: "map unitOf s = map unitOf t \<longleftrightarrow> s = t"
  by (simp add: inj_on_def)

lemma map_of_assign:
  "map_of (assign base extra) = map_of base ++ map_of (rev extra)"
proof (induction extra arbitrary: base)
  case Nil
  then show ?case by (simp add: assign_def)
next
  case (Cons x xs)
  obtain k v where x: "x = (k, v)" by (cases x)
  have "assign base (x # xs) = assign (AList.update k v base) xs"
    by (simp add: assign_def x)
  then show ?case
    using Cons.IH[of "AList.update k v base"]
    by (simp add: x AList.update_conv' map_add_def fun_eq_iff split: option.splits)
qed

lemma map_of_assign_other:
  "k \<notin> fst ` set extra \<Longrightarrow> map_of (assign d extra) k = map_of d k"
  by (simp add: map_of_assign map_add_def map_of_eq_None_iff[THEN iffD2] split: option.splits)

lemma map_of_rev_distinct:
  "distinct (map fst xs) \<Longrightarrow> map_of (rev xs) = map_of xs"
proof (induction xs)
  case Nil
  then show ?case by simp
next
  case (Cons x xs)
  obtain k v where x: "x = (k, v)" by (cases x)
  have "map_of xs k = None" using Cons.prems by (simp add: x map_of_eq_None_iff)
  then show ?case using Cons
    by (auto simp add: x map_add_def fun_eq_iff split: option.splits)
qed

lemma map_of_ownEntries_object:
  "map_of (rev (ownEntries (JObj kvs))) = map_of kvs"
  by (simp add: ownEntries_def map_of_rev_distinct AList.distinct_clearjunk AList.map_of_clearjunk)

lemma find_never [simp]: "find (\<lambda>k. False) xs = None"
  by (induction xs) simp_all

lemma conflict_set_only [simp]:
  "conflict \<lparr>opSetOnInsert = [], opSet = kvs, opPush = None\<rparr> = None"
  by (simp add: conflict_def)

lemma conflict_insert_only [simp]:
  "conflict \<lparr>opSetOnInsert = kvs, opSet = [], opPush = None\<rparr> = None"
  by (simp add: conflict_def)

lemma updateOne_set_existing:
  "c uid = Some d \<Longrightarrow>
   updateOne c uid \<lparr>opSetOnInsert = [], opSet = kvs, opPush = None\<rparr> upsert =
     Inr (c(uid \<mapsto> assign d kvs))"
  by (simp add: updateOne_def applyPush_def)

lemma updateOne_insert_missing:
  "c uid = None \<Longrightarrow>
   updateOne c uid \<lparr>opSetOnInsert = kvs, opSet = [], opPush = None\<rparr> True =
     Inr (c(uid \<mapsto> assign [(''userId'', JOid uid)] kvs))"
  by (simp add: updateOne_def applyPush_def assign_def)


lemma assign_newDocument:
  "assign [(''userId'', JOid uid)] (newDocument uid p now) = newDocument uid p now"
  by (simp add: assign_def newDocument_def)

lemma findOne_JNull [simp]: "(findOne c uid = JNull) = (c uid = None)"
  by (simp add: findOne_def split: option.splits)

lemma stored_after_set:
  assumes "userContextCollection st = Some c" "c uid = Some d" "f \<notin> fst ` set kvs"
  shows "stored (st\<lparr>userContextCollection := Some (c(uid \<mapsto> assign d kvs))\<rparr>) uid f
          = stored st uid f"
  using assms by (simp add: stored_def map_of_assign_other)





lemma example_normalize: "normalizeObjectId hexRuntime (JOid exampleId) = Some exampleId"
  by (simp add: normalizeObjectId_def)


subsection \<open>\<^verbatim>\<open>ensureUserContext\<close>\<close>

lemma sanitizeProfile_result:
  "p \<noteq> JNull \<Longrightarrow>
   sanitizeProfile p p =
     Inr (JObj (assign [(''name'', or_else (getProp (defaultEmpty p) ''name'') JNull),
                        (''email'', or_else (getProp (defaultEmpty p) ''email'') JNull),
                        (''phone'', or_else (getProp (defaultEmpty p) ''phone'') JNull),
                        (''language'', or_else (getProp (defaultEmpty p) ''language'') JNull)]
                  (ownEntries (defaultEmpty p))))"
  by (simp add: sanitizeProfile_def defaultEmpty_def Let_def)

lemma sanitizeProfile_object_field:
  "\<exists>prof. sanitizeProfile (JObj kvs) (JObj kvs) = Inr (JObj prof)
      \<and> (\<forall>k. getProp (JObj prof) k =
            (case map_of kvs k of
               Some v \<Rightarrow> v
             | None \<Rightarrow> if k \<in> {''name'', ''email'', ''phone'', ''language''} then JNull
                       else JUndefined))"
proof -
  let ?base = "[(''name'', or_else (getProp (JObj kvs) ''name'') JNull),
                (''email'', or_else (getProp (JObj kvs) ''email'') JNull),
                (''phone'', or_else (getProp (JObj kvs) ''phone'') JNull),
                (''language'', or_else (getProp (JObj kvs) ''language'') JNull)]"
  let ?prof = "assign ?base (ownEntries (JObj kvs))"
  have sp: "sanitizeProfile (JObj kvs) (JObj kvs) = Inr (JObj ?prof)"
    by (simp add: sanitizeProfile_def defaultEmpty_def Let_def)
  have "getProp (JObj ?prof) k =
            (case map_of kvs k of
               Some v \<Rightarrow> v
             | None \<Rightarrow> if k \<in> {''name'', ''email'', ''phone'', ''language''} then JNull
                       else JUndefined)" for k
  proof (cases "map_of kvs k")
    case None
    have absent: "or_else (getProp (JObj kvs) k) JNull = JNull"
      using None by (simp add: or_else_def)
    have m: "map_of ?prof k = map_of ?base k"
      using None by (simp only: map_of_assign map_of_ownEntries_object map_add_def option.case)
    consider "k = ''name''" | "k = ''email''" | "k = ''phone''" | "k = ''language''"
      | "k \<notin> {''name'', ''email'', ''phone'', ''language''}" by blast
    then show ?thesis
    proof cases
      case 1 then show ?thesis using absent None m by simp
    next
      case 2 then show ?thesis using absent None m by simp
    next
      case 3 then show ?thesis using absent None m by simp
    next
      case 4 then show ?thesis using absent None m by simp
    next
      case 5 then show ?thesis using None m by simp
    qed
  next
    case (Some v)
    have "map_of ?prof k = Some v"
      using Some by (simp only: map_of_assign map_of_ownEntries_object map_add_def option.case)
    then show ?thesis using Some by simp
  qed
  with sp show ?thesis by blast
qed


text \<open>
  On an existing document the call writes the sanitized profile and \<^verbatim>\<open>updatedAt\<close> and
  nothing else; when sanitizing throws, nothing is written.
\<close>

lemma ensureUserContext_existing:
  assumes "userContextCollection st = Some c" "normalizeObjectId R userId = Some uid"
    "c uid = Some d" "sanitizeProfile (defaultEmpty p) (defaultEmpty p) = Inr sp"
  shows "ensureUserContext R st userId p now =
     (Inr (JOid uid),
      st\<lparr>userContextCollection :=
           Some (c(uid \<mapsto> assign d [(''profile'', sp), (''updatedAt'', JDate now)]))\<rparr>)"
  using assms
  by (simp add: ensureUserContext_def getCollection_def Let_def updateOne_set_existing)

lemma ensureUserContext_throws:
  assumes "sanitizeProfile (defaultEmpty p) (defaultEmpty p) = Inl e"
  shows "snd (ensureUserContext R st userId p now) = st"
  using assms
  by (simp add: ensureUserContext_def getCollection_def Let_def split: option.splits sum.splits)


text \<open>
  Claim C8. For a user who already has a document, a call of \<^verbatim>\<open>ensureUserContext\<close> with
  any profile argument leaves the stored \<^verbatim>\<open>chats\<close>, \<^verbatim>\<open>location\<close> and \<^verbatim>\<open>weather\<close> as
  they were. This holds for the module's \<^verbatim>\<open>ensureUserContext\<close> and for its earlier
  one-upsert variant, whose update the server rejects as a whole.
\<close>

theorem ensureUserContext_preserves_snapshots:
  assumes "userContextCollection st = Some c" "normalizeObjectId R userId = Some uid"
    "c uid = Some d" "f \<in> {''chats'', ''location'', ''weather''}"
  shows "stored (snd (ensureUserContext R st userId p now)) uid f = stored st uid f
       \<and> stored (snd (ensureUserContextUpsert R st userId p now)) uid f = stored st uid f"
proof -
  have first: "stored (snd (ensureUserContext R st userId p now)) uid f = stored st uid f"
  proof (cases "sanitizeProfile (defaultEmpty p) (defaultEmpty p)")
    case (Inl e)
    then show ?thesis by (simp add: ensureUserContext_throws)
  next
    case (Inr sp)
    have "f \<notin> fst ` set [(''profile'', sp), (''updatedAt'', JDate now)]"
      using assms(4) by auto
    then show ?thesis
      using ensureUserContext_existing[OF assms(1-3) Inr] stored_after_set[OF assms(1,3)]
      by simp
  qed
  have "snd (ensureUserContextUpsert R st userId p now) = st"
    using assms(1,2)
    by (simp add: ensureUserContextUpsert_def getCollection_def Let_def updateOne_def
          conflict_def split: sum.splits)
  with first show ?thesis by simp
qed


text \<open>
  The theorem above for the example user and the field \<^verbatim>\<open>weather\<close>, with a new name as
  the profile argument.
\<close>

theorem ensureUserContext_preserves_snapshots_witness:
  "userContextCollection exampleState = Some [exampleId \<mapsto> exampleDoc]
   \<and> normalizeObjectId hexRuntime (JOid exampleId) = Some exampleId
   \<and> [exampleId \<mapsto> exampleDoc] exampleId = Some exampleDoc
   \<and> ''weather'' \<in> {''chats'', ''location'', ''weather''}
   \<and> stored (snd (ensureUserContext hexRuntime exampleState (JOid exampleId)
         (JObj [(''name'', JStr ''Bhima'')]) 1000)) exampleId ''weather''
       = map_of exampleDoc ''weather''
   \<and> stored (snd (ensureUserContextUpsert hexRuntime exampleState (JOid exampleId)
         (JObj [(''name'', JStr ''Bhima'')]) 1000)) exampleId ''weather''
       = map_of exampleDoc ''weather''"
proof -
  have c: "userContextCollection exampleState = Some [exampleId \<mapsto> exampleDoc]"
    by (simp add: exampleState_def)
  have d: "[exampleId \<mapsto> exampleDoc] exampleId = Some exampleDoc" by simp
  have f: "''weather'' \<in> {''chats'', ''location'', ''weather''}" by simp
  have s: "stored exampleState exampleId ''weather'' = map_of exampleDoc ''weather''"
    by (simp add: stored_def exampleState_def)
  show ?thesis
    using ensureUserContext_preserves_snapshots [OF c example_normalize d f,
        of "JObj [(''name'', JStr ''Bhima'')]" 1000] c d s example_normalize
    by simp
qed


text \<open>
  Claim C9, as the code has it. When the module is initialised and \<^verbatim>\<open>userId\<close> cannot be
  normalized to an \<^verbatim>\<open>ObjectId\<close>, \<^verbatim>\<open>ensureUserContext\<close> returns \<^verbatim>\<open>null\<close> and leaves
  the store as it was: the guard \<^verbatim>\<open>if (!normalizedId) return null\<close> raises no error.
\<close>

theorem ensureUserContext_invalid_id:
  assumes "userContextCollection st = Some c" "normalizeObjectId R userId = None"
  shows "ensureUserContext R st userId p now = (Inr JNull, st)"
  using assms by (simp add: ensureUserContext_def getCollection_def Let_def)


text \<open>
  The theorem above for the string \<open>12345\<close>, which is not an \<^verbatim>\<open>ObjectId\<close>.
\<close>

theorem ensureUserContext_invalid_id_witness:
  "userContextCollection exampleState = Some [exampleId \<mapsto> exampleDoc]
   \<and> normalizeObjectId hexRuntime (JStr ''12345'') = None
   \<and> ensureUserContext hexRuntime exampleState (JStr ''12345'') (JObj [(''name'', JStr ''Bhima'')]) 1000
       = (Inr JNull, exampleState)"
proof -
  have c: "userContextCollection exampleState = Some [exampleId \<mapsto> exampleDoc]"
    by (simp add: exampleState_def)
  have n: "normalizeObjectId hexRuntime (JStr ''12345'') = None"
    by (simp add: normalizeObjectId_def hexRuntime_def)
  show ?thesis
    using ensureUserContext_invalid_id [OF c n, of "JObj [(''name'', JStr ''Bhima'')]" 1000] c n
    by simp
qed


text \<open>
  Claim C9 as stated expects an error for such a \<^verbatim>\<open>userId\<close>. For the string
  \<open>not-an-object-id\<close> the call returns \<^verbatim>\<open>null\<close>, not an error, and the store is
  unchanged.
\<close>

theorem ensureUserContext_invalid_id_counterexample:
  "ensureUserContext hexRuntime \<lparr>userContextCollection = Some Map.empty\<rparr>
     (JStr ''not-an-object-id'') (JObj [(''name'', JStr ''Asha'')]) 1000 =
   (Inr JNull, \<lparr>userContextCollection = Some Map.empty\<rparr>)"
  by (simp add: ensureUserContext_def getCollection_def normalizeObjectId_def hexRuntime_def Let_def)


text \<open>
  Claim C5, as the code has it. For a user who already has a document, a call of
  \<^verbatim>\<open>ensureUserContext\<close> with a profile object replaces the stored profile as a whole:
  afterwards a field that the payload supplies has the supplied value, each of \<^verbatim>\<open>name\<close>,
  \<^verbatim>\<open>email\<close>, \<^verbatim>\<open>phone\<close> and \<^verbatim>\<open>language\<close> that the payload does not supply is
  \<^verbatim>\<open>null\<close>, and no other field exists. Nothing of the previous profile is kept.
\<close>

theorem ensureUserContext_replaces_profile:
  assumes "userContextCollection st = Some c" "normalizeObjectId R userId = Some uid"
    "c uid = Some d"
  shows "profileField (snd (ensureUserContext R st userId (JObj kvs) now)) uid k =
     Some (case map_of kvs k of
             Some v \<Rightarrow> v
           | None \<Rightarrow> if k \<in> {''name'', ''email'', ''phone'', ''language''} then JNull
                     else JUndefined)"
proof -
  obtain prof where sp: "sanitizeProfile (JObj kvs) (JObj kvs) = Inr (JObj prof)"
    and fields: "\<And>k. getProp (JObj prof) k =
            (case map_of kvs k of
               Some v \<Rightarrow> v
             | None \<Rightarrow> if k \<in> {''name'', ''email'', ''phone'', ''language''} then JNull
                       else JUndefined)"
    using sanitizeProfile_object_field[of kvs] by blast
  have "sanitizeProfile (defaultEmpty (JObj kvs)) (defaultEmpty (JObj kvs)) = Inr (JObj prof)"
    using sp by (simp add: defaultEmpty_def)
  from ensureUserContext_existing[OF assms this]
  have "stored (snd (ensureUserContext R st userId (JObj kvs) now)) uid ''profile''
          = Some (JObj prof)"
    by (simp add: stored_def map_of_assign)
  then show ?thesis using fields[of k] by (simp add: profileField_def)
qed


text \<open>
  The theorem above for the example user and the payload \<^verbatim>\<open>{ language: 'mr' }\<close>: the
  language is the new one and the phone number is \<^verbatim>\<open>null\<close>.
\<close>

theorem ensureUserContext_replaces_profile_witness:
  "userContextCollection exampleState = Some [exampleId \<mapsto> exampleDoc]
   \<and> normalizeObjectId hexRuntime (JOid exampleId) = Some exampleId
   \<and> [exampleId \<mapsto> exampleDoc] exampleId = Some exampleDoc
   \<and> profileField (snd (ensureUserContext hexRuntime exampleState (JOid exampleId)
          (JObj [(''language'', JStr ''mr'')]) 1000)) exampleId ''language'' = Some (JStr ''mr'')
   \<and> profileField (snd (ensureUserContext hexRuntime exampleState (JOid exampleId)
          (JObj [(''language'', JStr ''mr'')]) 1000)) exampleId ''phone'' = Some JNull"
  using ensureUserContext_replaces_profile [of exampleState "[exampleId \<mapsto> exampleDoc]"
      hexRuntime "JOid exampleId" exampleId exampleDoc "[(''language'', JStr ''mr'')]" 1000 "''language''"]
    ensureUserContext_replaces_profile [of exampleState "[exampleId \<mapsto> exampleDoc]"
      hexRuntime "JOid exampleId" exampleId exampleDoc "[(''language'', JStr ''mr'')]" 1000 "''phone''"]
  by (simp add: exampleState_def example_normalize)


text \<open>
  Claim C5 as stated says that a field absent from the second call keeps its stored value.
  The example user's name is \<open>Asha\<close> before the call with \<^verbatim>\<open>{ language: 'mr' }\<close> and
  \<^verbatim>\<open>null\<close> after it.
\<close>

theorem ensureUserContext_partial_profile_counterexample:
  "profileField exampleState exampleId ''name'' = Some (JStr ''Asha'')
   \<and> profileField (snd (ensureUserContext hexRuntime exampleState (JOid exampleId)
          (JObj [(''language'', JStr ''mr'')]) 1000)) exampleId ''name'' = Some JNull"
  by (simp add: profileField_def stored_def exampleState_def exampleDoc_def
        ensureUserContext_def getCollection_def normalizeObjectId_def Let_def sanitizeProfile_def
        defaultEmpty_def or_else_def ownEntries_def assign_def findOne_def updateOne_def
        conflict_def applyPush_def)


subsection \<open>\<^verbatim>\<open>updateLocationAndWeather\<close>\<close>

text \<open>
  An empty or omitted location sanitizes to \<^verbatim>\<open>null\<close>. An empty or omitted weather does
  not: \<^verbatim>\<open>source\<close> defaults to \<^verbatim>\<open>'app'\<close>, so \<^verbatim>\<open>meaningful\<close> is true and the result is
  the snapshot with every other field \<^verbatim>\<open>null\<close>.
\<close>

lemma sanitizeLocation_empty:
  "l = JUndefined \<or> l = JObj [] \<Longrightarrow> sanitizeLocation l now = JNull"
proof -
  assume "l = JUndefined \<or> l = JObj []"
  then have "defaultEmpty l = JObj []" by (auto simp add: defaultEmpty_def)
  then show ?thesis
    by (simp add: sanitizeLocation_def Let_def nullish_def or_else_def)
qed

lemma sanitizeWeather_empty:
  "w = JUndefined \<or> w = JObj [] \<Longrightarrow> sanitizeWeather w now = emptyWeather now"
proof -
  assume "w = JUndefined \<or> w = JObj []"
  then have "defaultEmpty w = JObj []" by (auto simp add: defaultEmpty_def)
  then show ?thesis
    by (simp add: sanitizeWeather_def Let_def nullish_def or_else_def assign_def emptyWeather_def)
qed

lemma updateLocationAndWeather_existing_no_profile:
  assumes "userContextCollection st = Some c" "normalizeObjectId R userId = Some uid"
    "c uid = Some d" "arg \<noteq> JNull"
    "\<not> hasProfileData (defaultEmpty (getProp (defaultEmpty arg) ''profile''))"
  shows "snd (updateLocationAndWeather R st userId arg now) =
     st\<lparr>userContextCollection := Some (c(uid \<mapsto> assign d
        ([(''updatedAt'', JDate now)]
         @ (if truthy (sanitizeLocation (getProp (defaultEmpty arg) ''location'') now)
            then [(''location'', sanitizeLocation (getProp (defaultEmpty arg) ''location'') now)]
            else [])
         @ (if truthy (sanitizeWeather (getProp (defaultEmpty arg) ''weather'') now)
            then [(''weather'', sanitizeWeather (getProp (defaultEmpty arg) ''weather'') now)]
            else []))))\<rparr>"
  using assms
  by (simp add: updateLocationAndWeather_def getCollection_def Let_def updateOne_set_existing)


text \<open>
  For any user with a document, a call whose location and weather are empty or omitted
  keeps the stored location and replaces the stored weather by the all-null snapshot.
\<close>

lemma updateLocationAndWeather_empty_payloads:
  assumes "userContextCollection st = Some c" "normalizeObjectId R userId = Some uid"
    "c uid = Some d"
    "arg = JUndefined \<or> arg = JObj [] \<or> arg = JObj [(''location'', JObj []), (''weather'', JObj [])]"
  shows "stored (snd (updateLocationAndWeather R st userId arg now)) uid ''weather''
           = Some (emptyWeather now)
       \<and> stored (snd (updateLocationAndWeather R st userId arg now)) uid ''location''
           = stored st uid ''location''"
proof -
  have loc: "sanitizeLocation (getProp (defaultEmpty arg) ''location'') now = JNull"
    using assms(4) by (auto simp add: defaultEmpty_def sanitizeLocation_empty)
  have wea: "sanitizeWeather (getProp (defaultEmpty arg) ''weather'') now = emptyWeather now"
    using assms(4) by (auto simp add: defaultEmpty_def sanitizeWeather_empty)
  have np: "\<not> hasProfileData (defaultEmpty (getProp (defaultEmpty arg) ''profile''))"
    using assms(4) by (auto simp add: defaultEmpty_def hasProfileData_def)
  have nn: "arg \<noteq> JNull" using assms(4) by auto
  show ?thesis
    using updateLocationAndWeather_existing_no_profile[OF assms(1-3) nn np, of now] assms(1,3)
    by (simp add: loc wea stored_def map_of_assign emptyWeather_def)
qed


text \<open>
  Claim C1 at a failing input. The example user has a stored weather snapshot with a
  temperature of 28. After \<^verbatim>\<open>updateLocationAndWeather(userId)\<close> with the payload omitted,
  and likewise after a call with \<^verbatim>\<open>{ location: {}, weather: {} }\<close>, the stored weather is
  the all-null snapshot, where the claim says it is unchanged.
\<close>

theorem updateLocationAndWeather_empty_weather_overwrites:
  "stored exampleState exampleId ''weather'' =
     Some (JObj [(''temperature'', JNum 28), (''humidity'', JNum 65),
                 (''condition'', JStr ''Partly Cloudy''), (''windSpeed'', JNum 12),
                 (''precipitationProbability'', JNum 20), (''source'', JStr ''app''),
                 (''updatedAt'', JDate 500)])
   \<and> stored (snd (updateLocationAndWeather hexRuntime exampleState (JOid exampleId) JUndefined 2000))
        exampleId ''weather'' =
     Some (JObj [(''temperature'', JNull), (''humidity'', JNull), (''condition'', JNull),
                 (''windSpeed'', JNull), (''precipitationProbability'', JNull),
                 (''source'', JStr ''app''), (''updatedAt'', JDate 2000)])
   \<and> stored (snd (updateLocationAndWeather hexRuntime exampleState (JOid exampleId)
                (JObj [(''location'', JObj []), (''weather'', JObj [])]) 2000))
        exampleId ''weather'' =
     Some (JObj [(''temperature'', JNull), (''humidity'', JNull), (''condition'', JNull),
                 (''windSpeed'', JNull), (''precipitationProbability'', JNull),
                 (''source'', JStr ''app''), (''updatedAt'', JDate 2000)])"
proof -
  have c: "userContextCollection exampleState = Some [exampleId \<mapsto> exampleDoc]"
    by (simp add: exampleState_def)
  have d: "[exampleId \<mapsto> exampleDoc] exampleId = Some exampleDoc" by simp
  have before: "stored exampleState exampleId ''weather'' =
     Some (JObj [(''temperature'', JNum 28), (''humidity'', JNum 65),
                 (''condition'', JStr ''Partly Cloudy''), (''windSpeed'', JNum 12),
                 (''precipitationProbability'', JNum 20), (''source'', JStr ''app''),
                 (''updatedAt'', JDate 500)])"
    by (simp add: stored_def exampleState_def exampleDoc_def)
  show ?thesis
    using updateLocationAndWeather_empty_payloads[OF c example_normalize d, of JUndefined 2000]
      updateLocationAndWeather_empty_payloads[OF c example_normalize d,
        of "JObj [(''location'', JObj []), (''weather'', JObj [])]" 2000]
      before
    by (simp add: emptyWeather_def)
qed


subsection \<open>\<^verbatim>\<open>appendChatMessage\<close>\<close>

text \<open>
  A string keeps at least one code unit under \<open>trim\<close> exactly when one of its code units
  is not white space.
\<close>

lemma trim_nonempty_iff:
  "(m \<noteq> [] \<and> 0 < length (trim m)) = list_ex (\<lambda>u. \<not> isSpace u) m"
proof -
  have inner: "(\<exists>x \<in> set (dropWhile isSpace m). \<not> isSpace x) = (\<exists>x \<in> set m. \<not> isSpace x)"
  proof
    assume "\<exists>x \<in> set (dropWhile isSpace m). \<not> isSpace x"
    then show "\<exists>x \<in> set m. \<not> isSpace x" by (meson set_dropWhileD)
  next
    assume "\<exists>x \<in> set m. \<not> isSpace x"
    then have ne: "dropWhile isSpace m \<noteq> []" by simp
    then have "\<not> isSpace (hd (dropWhile isSpace m))" by (rule hd_dropWhile)
    moreover have "hd (dropWhile isSpace m) \<in> set (dropWhile isSpace m)" using ne by simp
    ultimately show "\<exists>x \<in> set (dropWhile isSpace m). \<not> isSpace x" by blast
  qed
  have "0 < length (trim m) = (\<exists>x \<in> set (dropWhile isSpace m). \<not> isSpace x)"
    by (simp add: trim_def)
  then show ?thesis using inner by (auto simp add: list_ex_iff)
qed

text \<open>
  For an entry whose message is a string or absent, \<open>normalizeEntry\<close> does not throw, and
  the filter keeps the result exactly when the message is non-empty in the spec's sense.
\<close>

lemma normalizeEntry_plain:
  assumes "plainMessage e"
  shows "\<exists>x. normalizeEntry R now e = Inr x \<and> keepEntry x = nonEmptyMessage e"
proof (cases "getProp e ''message''")
  case (JString m)
  have "normalizeEntry R now e =
      Inr (JObj [(''role'', JStr (if getProp e ''role'' = JStr ''assistant''
                                  then ''assistant'' else ''user'')),
                 (''message'', JString m),
                 (''metadata'', or_else (getProp e ''metadata'') (JObj [])),
                 (''timestamp'', or_else (getProp e ''timestamp'') (JDate now))])"
    using JString by (cases "m = []") (simp_all add: normalizeEntry_def toStringJs_def)
  then show ?thesis
    using JString trim_nonempty_iff[of m] by (simp add: keepEntry_def nonEmptyMessage_def)
qed (use assms in \<open>simp_all add: plainMessage_def normalizeEntry_def keepEntry_def
       nonEmptyMessage_def\<close>)

lemma mapEntries_plain:
  "list_all plainMessage es \<Longrightarrow>
   \<exists>xs. mapEntries R now es = Inr xs
      \<and> length (filter keepEntry xs) = length (filter nonEmptyMessage es)"
proof (induction es)
  case Nil
  then show ?case by simp
next
  case (Cons e es)
  obtain x where x: "normalizeEntry R now e = Inr x" "keepEntry x = nonEmptyMessage e"
    using normalizeEntry_plain[of e R now] Cons.prems by auto
  obtain xs where xs: "mapEntries R now es = Inr xs"
    "length (filter keepEntry xs) = length (filter nonEmptyMessage es)"
    using Cons by auto
  show ?case using x xs by simp
qed

lemma chatEntries_callEntries:
  "chatEntries R now (defaultEmpty arg) =
     (case mapEntries R now (callEntries arg) of
        Inl e \<Rightarrow> Inl e
      | Inr xs \<Rightarrow> Inr (filter keepEntry xs))"
proof -
  have "(case defaultEmpty arg of JArr xs \<Rightarrow> xs | _ \<Rightarrow> [defaultEmpty arg]) = callEntries arg"
    by (simp add: callEntries_def split: jsval.splits)
  then show ?thesis by (simp add: chatEntries_def)
qed

lemma keptEntries_plain:
  assumes "list_all plainMessage (callEntries arg)"
  shows "chatEntries R now (defaultEmpty arg) = Inr (keptEntries R now arg)
       \<and> length (keptEntries R now arg) = length (filter nonEmptyMessage (callEntries arg))"
proof -
  obtain xs where "mapEntries R now (callEntries arg) = Inr xs"
    "length (filter keepEntry xs) = length (filter nonEmptyMessage (callEntries arg))"
    using mapEntries_plain[OF assms] by blast
  then show ?thesis by (simp add: keptEntries_def chatEntries_callEntries)
qed


text \<open>A call whose entries all have a message of white space only, or none: nothing is kept.\<close>

lemma chatEntries_blank:
  assumes "list_all (\<lambda>e. plainMessage e \<and> \<not> nonEmptyMessage e) (callEntries arg)"
  shows "chatEntries R now (defaultEmpty arg) = Inr []"
proof -
  have plain: "list_all plainMessage (callEntries arg)"
    using assms by (simp add: list_all_iff)
  have "filter nonEmptyMessage (callEntries arg) = []"
    using assms by (simp add: list_all_iff filter_empty_conv)
  then show ?thesis using keptEntries_plain[OF plain, of R now] by simp
qed


lemma shell_profile:
  "\<exists>p. (if hasProfileData (or_else q (JObj [])) then
          sanitizeProfile (or_else q (JObj [])) (or_else q (JObj []))
        else Inr nullProfile) = Inr p"
proof -
  have "or_else q (JObj []) \<noteq> JNull" by (auto simp add: or_else_def)
  then show ?thesis using sanitizeProfile_result[of "or_else q (JObj [])"] by auto
qed

text \<open>
  A call for a user without a document creates the minimal document and then goes on as a
  call for a user who has that document.
\<close>

lemma appendChatMessage_missing:
  assumes "userContextCollection st = Some c" "normalizeObjectId R userId = Some uid"
    "c uid = None"
  shows "\<exists>p. appendChatMessage R st userId arg now =
     appendChatMessage R (st\<lparr>userContextCollection := Some (c(uid \<mapsto> newDocument uid p now))\<rparr>)
       userId arg now"
proof -
  let ?sample = "case defaultEmpty arg of JArr [] \<Rightarrow> JUndefined | JArr (x # xs) \<Rightarrow> x
                 | _ \<Rightarrow> defaultEmpty arg"
  obtain p where p: "(if hasProfileData (or_else (getProp ?sample ''profile'') (JObj [])) then
          sanitizeProfile (or_else (getProp ?sample ''profile'') (JObj []))
            (or_else (getProp ?sample ''profile'') (JObj []))
        else Inr nullProfile) = Inr p"
    using shell_profile by blast
  let ?c1 = "c(uid \<mapsto> newDocument uid p now)"
  let ?st1 = "st\<lparr>userContextCollection := Some ?c1\<rparr>"
  define continue where "continue =
     (case chatEntries R now (defaultEmpty arg) of
        Inl e \<Rightarrow> (Inl e, ?st1)
      | Inr entries \<Rightarrow>
          if entries = [] then (Inr (findOneProjected ?c1 uid), ?st1)
          else (case updateOne ?c1 uid
                       \<lparr>opSetOnInsert = [], opSet = [(''updatedAt'', JDate now)],
                        opPush = Some (''chats'', entries, 5)\<rparr> False of
                  Inl e \<Rightarrow> (Inl e, ?st1)
                | Inr collection'' \<Rightarrow>
                    (Inr (findOneProjected collection'' uid),
                     ?st1\<lparr>userContextCollection := Some collection''\<rparr>)))"
  have ins: "updateOne c uid \<lparr>opSetOnInsert = newDocument uid p now, opSet = [], opPush = None\<rparr> True
      = Inr ?c1"
    using assms(3) by (simp add: updateOne_insert_missing assign_newDocument)
  have left: "appendChatMessage R st userId arg now = continue"
    using assms p ins
    by (simp add: appendChatMessage_def getCollection_def Let_def continue_def)
  have right: "appendChatMessage R ?st1 userId arg now = continue"
    using assms(2)
    by (simp add: appendChatMessage_def getCollection_def Let_def continue_def)
  show ?thesis using left right by metis
qed








lemma appendChatMessage_nothing_existing:
  assumes "userContextCollection st = Some c" "normalizeObjectId R userId = Some uid"
    "c uid = Some d" "chatEntries R now (defaultEmpty arg) = Inr []"
  shows "appendChatMessage R st userId arg now = (Inr (findOneProjected c uid), st)"
proof -
  have same: "st\<lparr>userContextCollection := Some c\<rparr> = st" using assms(1) by simp
  show ?thesis
    using assms by (simp add: appendChatMessage_def getCollection_def Let_def same)
qed

text \<open>
  Claim C10. When every entry of a call is dropped (its message is empty or consists of
  white space, in the sense of \<^verbatim>\<open>String.prototype.trim\<close>), \<^verbatim>\<open>appendChatMessage\<close> returns
  the user's document, projected to \<^verbatim>\<open>userId\<close> and \<^verbatim>\<open>chats\<close>, and not an error. If the
  user has a document the store is left exactly as it was, so neither \<^verbatim>\<open>chats\<close> nor
  \<^verbatim>\<open>updatedAt\<close> changes. If the user has none, the minimal document is created first, with
  an empty \<^verbatim>\<open>chats\<close>, and that is what is returned.
\<close>

theorem appendChatMessage_nothing_to_append:
  assumes "userContextCollection st = Some c" "normalizeObjectId R userId = Some uid"
    "chatEntries R now (defaultEmpty arg) = Inr []"
  shows "(c uid \<noteq> None \<longrightarrow>
            appendChatMessage R st userId arg now = (Inr (findOneProjected c uid), st))
       \<and> (c uid = None \<longrightarrow>
            fst (appendChatMessage R st userId arg now) =
              Inr (JObj [(''userId'', JOid uid), (''chats'', JArr [])])
            \<and> stored (snd (appendChatMessage R st userId arg now)) uid ''chats'' = Some (JArr []))"
proof (intro conjI impI)
  assume "c uid \<noteq> None"
  then obtain d where d: "c uid = Some d" by auto
  from appendChatMessage_nothing_existing[OF assms(1,2) d assms(3)]
  show "appendChatMessage R st userId arg now = (Inr (findOneProjected c uid), st)" .
next
  assume none: "c uid = None"
  obtain p where p: "appendChatMessage R st userId arg now =
     appendChatMessage R (st\<lparr>userContextCollection := Some (c(uid \<mapsto> newDocument uid p now))\<rparr>)
       userId arg now"
    using appendChatMessage_missing[OF assms(1,2) none] by blast
  let ?c1 = "c(uid \<mapsto> newDocument uid p now)"
  let ?st1 = "st\<lparr>userContextCollection := Some ?c1\<rparr>"
  have run: "appendChatMessage R ?st1 userId arg now = (Inr (findOneProjected ?c1 uid), ?st1)"
    using appendChatMessage_nothing_existing[of ?st1 ?c1 R userId uid "newDocument uid p now" now arg]
      assms(2,3)
    by simp
  show "fst (appendChatMessage R st userId arg now) =
              Inr (JObj [(''userId'', JOid uid), (''chats'', JArr [])])"
    using p run by (simp add: findOneProjected_def newDocument_def)
  show "stored (snd (appendChatMessage R st userId arg now)) uid ''chats'' = Some (JArr [])"
    using p run by (simp add: stored_def newDocument_def)
qed

text \<open>
  The theorem above for the example user and a call with a message of spaces, a message of
  a no-break space, an em space and a byte-order mark, and an entry without message: the
  store, with its \<^verbatim>\<open>updatedAt\<close> of 500, is unchanged. And for a new user and a call with an
  empty message.
\<close>

theorem appendChatMessage_nothing_to_append_witness:
  "userContextCollection exampleState = Some [exampleId \<mapsto> exampleDoc]
   \<and> normalizeObjectId hexRuntime (JOid exampleId) = Some exampleId
   \<and> chatEntries hexRuntime 3000
        (defaultEmpty (JArr [JObj [(''role'', JStr ''user''), (''message'', JStr ''   '')],
                             blankMessage, JObj [(''role'', JStr ''assistant'')]])) = Inr []
   \<and> [exampleId \<mapsto> exampleDoc] exampleId \<noteq> None
   \<and> appendChatMessage hexRuntime exampleState (JOid exampleId)
        (JArr [JObj [(''role'', JStr ''user''), (''message'', JStr ''   '')],
               blankMessage, JObj [(''role'', JStr ''assistant'')]]) 3000 =
       (Inr (JObj [(''userId'', JOid exampleId), (''chats'', JArr [])]), exampleState)
   \<and> stored exampleState exampleId ''updatedAt'' = Some (JDate 500)
   \<and> Map.empty exampleId = (None :: document option)
   \<and> stored (snd (appendChatMessage hexRuntime \<lparr>userContextCollection = Some Map.empty\<rparr>
        (JOid exampleId) (JObj [(''message'', JStr [])]) 3000)) exampleId ''chats'' = Some (JArr [])"
proof -
  have e1: "chatEntries hexRuntime 3000
        (defaultEmpty (JArr [JObj [(''role'', JStr ''user''), (''message'', JStr ''   '')],
                             blankMessage, JObj [(''role'', JStr ''assistant'')]])) = Inr []"
    by (rule chatEntries_blank)
      (simp add: callEntries_def defaultEmpty_def blankMessage_def plainMessage_def
         nonEmptyMessage_def isSpace_def)
  have e2: "chatEntries hexRuntime 3000 (defaultEmpty (JObj [(''message'', JStr [])])) = Inr []"
    by (rule chatEntries_blank)
      (simp add: callEntries_def defaultEmpty_def plainMessage_def nonEmptyMessage_def)
  have c: "userContextCollection exampleState = Some [exampleId \<mapsto> exampleDoc]"
    by (simp add: exampleState_def)
  have p: "findOneProjected [exampleId \<mapsto> exampleDoc] exampleId =
      JObj [(''userId'', JOid exampleId), (''chats'', JArr [])]"
    by (simp add: findOneProjected_def exampleDoc_def)
  have u: "stored exampleState exampleId ''updatedAt'' = Some (JDate 500)"
    by (simp add: stored_def exampleState_def exampleDoc_def)
  show ?thesis
    using appendChatMessage_nothing_to_append [OF c example_normalize e1]
      appendChatMessage_nothing_to_append [of "\<lparr>userContextCollection = Some Map.empty\<rparr>"
        Map.empty hexRuntime "JOid exampleId" exampleId 3000 "JObj [(''message'', JStr [])]"]
      e1 e2 c p u example_normalize
    by simp
qed

end
